theory Spec2Isabelle
  imports Main "HOL-Library.Char_ord" "HOL-Library.List_Lexorder"
begin

section \<open>JavaScript primitives used by the bot\<close>

text \<open>
  A text is a list of UTF-16 code units below 256 (a \<open>char\<close>): every text of the model is a
  JavaScript string, and a JavaScript string with a code unit beyond U+00FF is outside the
  model.  A JavaScript number is NaN, an infinity, or an integer that is a double
  (\<open>number\<close>); arithmetic rounds to the nearest double as IEEE 754 does.  Numbers with a
  fraction do not arise in the handlers modelled here.
\<close>

definition is_digit :: "char \<Rightarrow> bool" where
  "is_digit c = (CHR ''0'' \<le> c \<and> c \<le> CHR ''9'')"

definition is_upper :: "char \<Rightarrow> bool" where
  "is_upper c = (CHR ''A'' \<le> c \<and> c \<le> CHR ''Z'')"

definition is_lower :: "char \<Rightarrow> bool" where
  "is_lower c = (CHR ''a'' \<le> c \<and> c \<le> CHR ''z'')"

text \<open>White space of \<open>String.prototype.trim\<close>, \<open>\s\<close> and \<open>parseInt\<close> below U+0100:
  TAB, LF, VT, FF, CR, SPACE and the no-break space U+00A0.\<close>

definition is_space :: "char \<Rightarrow> bool" where
  "is_space c = (of_char c \<in> {9, 10, 11, 12, 13, 32, 160 :: nat})"

definition trim :: "string \<Rightarrow> string" where
  "trim s = rev (dropWhile is_space (rev (dropWhile is_space s)))"

text \<open>
  \<open>String.prototype.toUpperCase\<close>, character by character: \<open>a-z\<close> and U+00E0 to U+00FE
  (without the division sign U+00F7) move down by 32, U+00DF becomes \<open>SS\<close>, every other
  character below U+0100 is kept, except U+00FF and U+00B5, whose upper-case forms (U+0178,
  U+039C) lie beyond U+00FF: for a text with one of them the result is outside the model,
  \<open>None\<close>.
\<close>

definition upper_char :: "char \<Rightarrow> string option" where
  "upper_char c =
     (let n = (of_char c :: nat)
      in if is_lower c \<or> (224 \<le> n \<and> n \<le> 254 \<and> n \<noteq> 247) then Some [char_of (n - 32)]
         else if n = 223 then Some ''SS''
         else if n = 255 \<or> n = 181 then None
         else Some [c])"

fun toUpperCase :: "string \<Rightarrow> string option" where
  "toUpperCase [] = Some []"
| "toUpperCase (c # cs) =
     (case upper_char c of
        None \<Rightarrow> None
      | Some u \<Rightarrow> (case toUpperCase cs of None \<Rightarrow> None | Some us \<Rightarrow> Some (u @ us)))"

text \<open>\<open>String.prototype.toLowerCase\<close>: \<open>A-Z\<close> and U+00C0 to U+00DE (without the
  multiplication sign U+00D7) move up by 32.\<close>

definition lower_char :: "char \<Rightarrow> char" where
  "lower_char c =
     (let n = (of_char c :: nat)
      in if is_upper c \<or> (192 \<le> n \<and> n \<le> 222 \<and> n \<noteq> 215) then char_of (n + 32) else c)"

definition toLowerCase :: "string \<Rightarrow> string" where
  "toLowerCase s = map lower_char s"

text \<open>SQLite's \<open>lower()\<close>: only \<open>A-Z\<close> change.\<close>

definition sql_lower :: "string \<Rightarrow> string" where
  "sql_lower s = map (\<lambda>c. if is_upper c then char_of (of_char c + (32::nat)) else c) s"

subsection \<open>Numbers\<close>

datatype number = NaN | PosInf | NegInf | Fin int

text \<open>The number of binary digits of a positive integer.\<close>

function bit_length :: "int \<Rightarrow> nat" where
  "bit_length n = (if n \<le> 0 then 0 else Suc (bit_length (n div 2)))"
  by pat_completeness auto
termination
  by (relation "measure nat") auto

declare bit_length.simps [simp del]

text \<open>
  The double nearest to an integer, ties to the even significand: integers of at most 53
  binary digits are doubles; a longer one keeps its leading 53 digits, rounded; from
  \<open>2^1024\<close> on the result is an infinity.
\<close>

definition round_double :: "int \<Rightarrow> number" where
  "round_double n =
     (let a = \<bar>n\<bar>; e = bit_length a - 53
      in if e = 0 then Fin n
         else
           (let q = a div 2 ^ e; r = a mod 2 ^ e; h = 2 ^ (e - 1);
                q' = (if h < r \<or> (r = h \<and> odd q) then q + 1 else q);
                v = q' * 2 ^ e
            in if 2 ^ 1024 \<le> v then (if n < 0 then NegInf else PosInf)
               else Fin (if n < 0 then - v else v)))"

text \<open>\<open>a + b\<close>, \<open>a * b\<close> and \<open>a < b\<close> on numbers.\<close>

fun js_add :: "number \<Rightarrow> number \<Rightarrow> number" where
  "js_add (Fin a) (Fin b) = round_double (a + b)"
| "js_add NaN b = NaN"
| "js_add a NaN = NaN"
| "js_add PosInf NegInf = NaN"
| "js_add NegInf PosInf = NaN"
| "js_add PosInf b = PosInf"
| "js_add NegInf b = NegInf"
| "js_add a PosInf = PosInf"
| "js_add a NegInf = NegInf"

fun js_sign :: "number \<Rightarrow> int" where
  "js_sign (Fin a) = sgn a"
| "js_sign PosInf = 1"
| "js_sign NegInf = - 1"
| "js_sign NaN = 0"

fun js_mul :: "number \<Rightarrow> number \<Rightarrow> number" where
  "js_mul (Fin a) (Fin b) = round_double (a * b)"
| "js_mul NaN b = NaN"
| "js_mul a NaN = NaN"
| "js_mul a b =
     (if js_sign a * js_sign b = 0 then NaN else if 0 < js_sign a * js_sign b then PosInf else NegInf)"

fun js_less :: "number \<Rightarrow> number \<Rightarrow> bool" where
  "js_less (Fin a) (Fin b) = (a < b)"
| "js_less NaN b = False"
| "js_less a NaN = False"
| "js_less a NegInf = False"
| "js_less PosInf b = False"
| "js_less a b = True"

text \<open>Truthiness of a number: not zero and not NaN.\<close>

fun number_truthy :: "number \<Rightarrow> bool" where
  "number_truthy (Fin a) = (a \<noteq> 0)"
| "number_truthy NaN = False"
| "number_truthy _ = True"

definition digit_val :: "char \<Rightarrow> int" where
  "digit_val c = of_char c - 48"

definition digit_char :: "int \<Rightarrow> char" where
  "digit_char d = char_of (48 + d)"

text \<open>The value of a run of decimal digits, most significant first.\<close>

definition digits_val :: "string \<Rightarrow> int" where
  "digits_val ds = foldl (\<lambda>a c. 10 * a + digit_val c) 0 ds"

text \<open>\<open>parseInt(t, 10)\<close>: leading white space is skipped, one sign is read, then the longest
  run of digits; what follows the digits is ignored; no digit gives \<open>NaN\<close>; the value of the
  digits is rounded to a double.\<close>

definition parseInt :: "string \<Rightarrow> number" where
  "parseInt t =
     (let s = dropWhile is_space t;
          neg = (case s of c # _ \<Rightarrow> c = CHR ''-'' | [] \<Rightarrow> False);
          r = (case s of c # cs \<Rightarrow> if c = CHR ''-'' \<or> c = CHR ''+'' then cs else s | [] \<Rightarrow> s);
          ds = takeWhile is_digit r
      in if ds = [] then NaN
         else round_double (if neg then - digits_val ds else digits_val ds))"

text \<open>\<open>String(n)\<close> of an integer below \<open>10^21\<close> in size: its decimal digits.  (The first
  argument of \<open>digits_of\<close> bounds the number of digits.)\<close>

fun digits_of :: "nat \<Rightarrow> int \<Rightarrow> string" where
  "digits_of 0 n = []"
| "digits_of (Suc f) n =
     (if n < 10 then [digit_char n] else digits_of f (n div 10) @ [digit_char (n mod 10)])"

definition String :: "int \<Rightarrow> string" where
  "String i = (if i < 0 then CHR ''-'' # digits_of (Suc (nat (- i))) (- i) else digits_of (Suc (nat i)) i)"

definition string_of_nat :: "nat \<Rightarrow> string" where
  "string_of_nat n = String (int n)"

section \<open>JSON values, \<open>JSON.parse\<close> and \<open>JSON.stringify\<close>\<close>

text \<open>
  JavaScript values as far as the bot handles them.  \<open>JNull\<close> stands for \<open>null\<close> and
  \<open>undefined\<close>.  A number written without fraction and exponent is \<open>JNum\<close>, with the double
  it rounds to; a literal with a fraction or an exponent, or beyond the finite doubles, is
  kept as its text in \<open>JFloat\<close> (its value is not modelled).
  The members of an object are kept in source order; a later duplicate key wins.
\<close>

datatype json =
    JNull
  | JBool bool
  | JNum int
  | JFloat string
  | JStr string
  | JArr "json list"
  | JObj "(string \<times> json) list"

datatype token =
    TLBrace | TRBrace | TLBrack | TRBrack | TColon | TComma
  | TStr string | TVal json

datatype lexstate =
    LIdle
  | LWord string
  | LStr string
  | LEsc string
  | LHex string string

definition is_hex :: "char \<Rightarrow> bool" where
  "is_hex c = (is_digit c \<or> (CHR ''a'' \<le> c \<and> c \<le> CHR ''f'') \<or> (CHR ''A'' \<le> c \<and> c \<le> CHR ''F''))"

definition hex_val :: "char \<Rightarrow> nat" where
  "hex_val c = (if is_digit c then of_char c - 48
                else if CHR ''a'' \<le> c then of_char c - 87 else of_char c - 55)"

text \<open>A \<open>\uXXXX\<close> escape: the character itself below 128, its UTF-8 bytes above
  (surrogate pairs are not combined).\<close>

definition utf8 :: "nat \<Rightarrow> string" where
  "utf8 n =
     (if n < 128 then [char_of n]
      else if n < 2048 then [char_of (192 + n div 64), char_of (128 + n mod 64)]
      else [char_of (224 + n div 4096), char_of (128 + (n div 64) mod 64), char_of (128 + n mod 64)])"

definition is_word_char :: "char \<Rightarrow> bool" where
  "is_word_char c = (is_digit c \<or> is_lower c \<or> is_upper c \<or> c \<in> {CHR ''-'', CHR ''+'', CHR ''.''})"

text \<open>White space between JSON tokens: TAB, LF, CR, SPACE.\<close>

definition is_json_ws :: "char \<Rightarrow> bool" where
  "is_json_ws c = (of_char c \<in> {9, 10, 13, 32 :: nat})"

text \<open>The JSON number grammar \<open>-?(0|[1-9][0-9]*)(\.[0-9]+)?([eE][+-]?[0-9]+)?\<close>.\<close>

definition is_json_exp :: "string \<Rightarrow> bool" where
  "is_json_exp w =
     (case w of
        [] \<Rightarrow> True
      | e # r \<Rightarrow> (e = CHR ''e'' \<or> e = CHR ''E'') \<and>
          (let ds = (case r of c # cs \<Rightarrow> if c = CHR ''+'' \<or> c = CHR ''-'' then cs else r | [] \<Rightarrow> r)
           in ds \<noteq> [] \<and> list_all is_digit ds))"

definition is_json_frac_exp :: "string \<Rightarrow> bool" where
  "is_json_frac_exp w =
     (case w of
        [] \<Rightarrow> True
      | c # r \<Rightarrow> if c = CHR ''.''
                then takeWhile is_digit r \<noteq> [] \<and> is_json_exp (dropWhile is_digit r)
                else is_json_exp w)"

definition json_number :: "string \<Rightarrow> json option" where
  "json_number w =
     (let neg = (case w of c # _ \<Rightarrow> c = CHR ''-'' | [] \<Rightarrow> False);
          u = (if neg then tl w else w);
          ip = takeWhile is_digit u;
          rest = dropWhile is_digit u
      in if ip = [] \<or> (length ip > 1 \<and> hd ip = CHR ''0'') \<or> \<not> is_json_frac_exp rest then None
         else if rest = [] then
           (case round_double (if neg then - digits_val ip else digits_val ip) of
              Fin v \<Rightarrow> Some (JNum v)
            | _ \<Rightarrow> Some (JFloat w))
         else Some (JFloat w))"

definition classify :: "string \<Rightarrow> token option" where
  "classify w =
     (if w = ''true'' then Some (TVal (JBool True))
      else if w = ''false'' then Some (TVal (JBool False))
      else if w = ''null'' then Some (TVal JNull)
      else map_option TVal (json_number w))"

text \<open>One character read between tokens.\<close>

definition idle_step :: "token list \<Rightarrow> char \<Rightarrow> (lexstate \<times> token list) option" where
  "idle_step acc c =
     (if is_json_ws c then Some (LIdle, acc)
      else if c = CHR ''{'' then Some (LIdle, TLBrace # acc)
      else if c = CHR ''}'' then Some (LIdle, TRBrace # acc)
      else if c = CHR ''['' then Some (LIdle, TLBrack # acc)
      else if c = CHR '']'' then Some (LIdle, TRBrack # acc)
      else if c = CHR '':'' then Some (LIdle, TColon # acc)
      else if c = CHR '','' then Some (LIdle, TComma # acc)
      else if c = CHR 0x22 then Some (LStr [], acc)
      else if is_word_char c then Some (LWord [c], acc)
      else None)"

definition escape_char :: "char \<Rightarrow> string option" where
  "escape_char c =
     (if c = CHR 0x22 \<or> c = CHR 0x5C \<or> c = CHR ''/'' then Some [c]
      else if c = CHR ''b'' then Some [CHR 0x08]
      else if c = CHR ''f'' then Some [CHR 0x0C]
      else if c = CHR ''n'' then Some [CHR 0x0A]
      else if c = CHR ''r'' then Some [CHR 0x0D]
      else if c = CHR ''t'' then Some [CHR 0x09]
      else None)"

fun lex_step :: "lexstate \<times> token list \<Rightarrow> char \<Rightarrow> (lexstate \<times> token list) option" where
  "lex_step (LIdle, acc) c = idle_step acc c"
| "lex_step (LWord w, acc) c =
     (if is_word_char c then Some (LWord (w @ [c]), acc)
      else (case classify w of None \<Rightarrow> None | Some t \<Rightarrow> idle_step (t # acc) c))"
| "lex_step (LStr s, acc) c =
     (if c = CHR 0x22 then Some (LIdle, TStr s # acc)
      else if c = CHR 0x5C then Some (LEsc s, acc)
      else if (of_char c :: nat) < 32 then None
      else Some (LStr (s @ [c]), acc))"
| "lex_step (LEsc s, acc) c =
     (if c = CHR ''u'' then Some (LHex s [], acc)
      else (case escape_char c of None \<Rightarrow> None | Some e \<Rightarrow> Some (LStr (s @ e), acc)))"
| "lex_step (LHex s h, acc) c =
     (if \<not> is_hex c then None
      else if length h < 3 then Some (LHex s (h @ [c]), acc)
      else Some (LStr (s @ utf8 (foldl (\<lambda>a d. 16 * a + hex_val d) 0 (h @ [c]))), acc))"

fun lex_run :: "lexstate \<times> token list \<Rightarrow> string \<Rightarrow> (lexstate \<times> token list) option" where
  "lex_run st [] = Some st"
| "lex_run st (c # cs) = (case lex_step st c of None \<Rightarrow> None | Some st' \<Rightarrow> lex_run st' cs)"

definition tokens :: "string \<Rightarrow> token list option" where
  "tokens s =
     (case lex_run (LIdle, []) s of
        Some (LIdle, acc) \<Rightarrow> Some (rev acc)
      | Some (LWord w, acc) \<Rightarrow> map_option (\<lambda>t. rev (t # acc)) (classify w)
      | _ \<Rightarrow> None)"

text \<open>
  The token list is read by a pushdown automaton, one token per step.  A frame of the stack
  is an array under construction or an object under construction with the key that awaits
  its value.
\<close>

datatype frame = ArrF "json list" | ObjF "(string \<times> json) list" "string option"

datatype pstate =
    PValue
  | PArrStart
  | PObjStart
  | PKey
  | PColon
  | PAfter
  | PDone json

text \<open>A finished value goes into the frame on top of the stack, or is the result.\<close>

fun complete :: "json \<Rightarrow> frame list \<Rightarrow> (pstate \<times> frame list) option" where
  "complete v [] = Some (PDone v, [])"
| "complete v (ArrF es # st) = Some (PAfter, ArrF (v # es) # st)"
| "complete v (ObjF ms (Some k) # st) = Some (PAfter, ObjF ((k, v) # ms) None # st)"
| "complete v (ObjF ms None # st) = None"

fun start_value :: "token \<Rightarrow> frame list \<Rightarrow> (pstate \<times> frame list) option" where
  "start_value TLBrack st = Some (PArrStart, ArrF [] # st)"
| "start_value TLBrace st = Some (PObjStart, ObjF [] None # st)"
| "start_value (TStr s) st = complete (JStr s) st"
| "start_value (TVal v) st = complete v st"
| "start_value _ st = None"

fun take_key :: "token \<Rightarrow> frame list \<Rightarrow> (pstate \<times> frame list) option" where
  "take_key (TStr k) (ObjF ms None # st) = Some (PColon, ObjF ms (Some k) # st)"
| "take_key _ _ = None"

fun parse_step :: "pstate \<times> frame list \<Rightarrow> token \<Rightarrow> (pstate \<times> frame list) option" where
  "parse_step (PValue, st) t = start_value t st"
| "parse_step (PArrStart, st) t =
     (case (t, st) of
        (TRBrack, ArrF es # st') \<Rightarrow> complete (JArr (rev es)) st'
      | _ \<Rightarrow> start_value t st)"
| "parse_step (PObjStart, st) t =
     (case (t, st) of
        (TRBrace, ObjF ms None # st') \<Rightarrow> complete (JObj (rev ms)) st'
      | _ \<Rightarrow> take_key t st)"
| "parse_step (PKey, st) t = take_key t st"
| "parse_step (PColon, st) t = (if t = TColon then Some (PValue, st) else None)"
| "parse_step (PAfter, st) t =
     (case (t, st) of
        (TComma, ArrF es # st') \<Rightarrow> Some (PValue, st)
      | (TComma, ObjF ms None # st') \<Rightarrow> Some (PKey, st)
      | (TRBrack, ArrF es # st') \<Rightarrow> complete (JArr (rev es)) st'
      | (TRBrace, ObjF ms None # st') \<Rightarrow> complete (JObj (rev ms)) st'
      | _ \<Rightarrow> None)"
| "parse_step (PDone v, st) t = None"

fun parse_run :: "pstate \<times> frame list \<Rightarrow> token list \<Rightarrow> (pstate \<times> frame list) option" where
  "parse_run st [] = Some st"
| "parse_run st (t # ts) = (case parse_step st t of None \<Rightarrow> None | Some st' \<Rightarrow> parse_run st' ts)"

datatype exn = SyntaxError | TypeError | RangeError | ConstraintError

text \<open>\<open>JSON.parse(text)\<close>: the value, or \<open>SyntaxError\<close> thrown.\<close>

definition JSON_parse :: "string \<Rightarrow> exn + json" where
  "JSON_parse s =
     (case tokens s of
        None \<Rightarrow> Inl SyntaxError
      | Some ts \<Rightarrow>
          (case parse_run (PValue, []) ts of
             Some (PDone v, _) \<Rightarrow> Inr v
           | _ \<Rightarrow> Inl SyntaxError))"

text \<open>\<open>JSON.stringify\<close> of a string: quotes, with the quote, the backslash and the control
  characters escaped.\<close>

definition hex_digit :: "nat \<Rightarrow> char" where
  "hex_digit d = (if d < 10 then char_of (48 + d) else char_of (87 + d))"

definition quote_char :: "char \<Rightarrow> string" where
  "quote_char c =
     (if c = CHR 0x22 then [CHR 0x5C, CHR 0x22]
      else if c = CHR 0x5C then [CHR 0x5C, CHR 0x5C]
      else if c = CHR 0x08 then [CHR 0x5C, CHR ''b'']
      else if c = CHR 0x0C then [CHR 0x5C, CHR ''f'']
      else if c = CHR 0x0A then [CHR 0x5C, CHR ''n'']
      else if c = CHR 0x0D then [CHR 0x5C, CHR ''r'']
      else if c = CHR 0x09 then [CHR 0x5C, CHR ''t'']
      else if (of_char c :: nat) < 32
        then [CHR 0x5C, CHR ''u'', CHR ''0'', CHR ''0'',
              hex_digit (of_char c div 16), hex_digit (of_char c mod 16)]
      else [c])"

definition quote :: "string \<Rightarrow> string" where
  "quote s = CHR 0x22 # concat (map quote_char s) @ [CHR 0x22]"

text \<open>\<open>JSON.stringify\<close> of a flat object whose properties are strings or \<open>undefined\<close>
  (the only objects the bot serialises): an \<open>undefined\<close> property is left out.\<close>

definition member_text :: "string \<times> string option \<Rightarrow> string option" where
  "member_text kv = (case snd kv of None \<Rightarrow> None | Some v \<Rightarrow> Some (quote (fst kv) @ '':'' @ quote v))"

fun join :: "string \<Rightarrow> string list \<Rightarrow> string" where
  "join sep [] = []"
| "join sep [x] = x"
| "join sep (x # y # ys) = x @ sep @ join sep (y # ys)"

definition JSON_stringify :: "(string \<times> string option) list \<Rightarrow> string" where
  "JSON_stringify ms = ''{'' @ join '','' (List.map_filter member_text ms) @ ''}''"

section \<open>\<open>safeParse\<close>\<close>

text \<open>JavaScript truthiness.  A number written with a fraction or an exponent is zero when
  all digits of its mantissa are (underflow to zero is not modelled).\<close>

fun truthy :: "json \<Rightarrow> bool" where
  "truthy JNull = False"
| "truthy (JBool b) = b"
| "truthy (JNum n) = (n \<noteq> 0)"
| "truthy (JFloat w) =
     (\<exists>c \<in> set (takeWhile (\<lambda>c. c \<noteq> CHR ''e'' \<and> c \<noteq> CHR ''E'') w). CHR ''1'' \<le> c \<and> c \<le> CHR ''9'')"
| "truthy (JStr s) = (s \<noteq> [])"
| "truthy (JArr xs) = True"
| "truthy (JObj ms) = True"

text \<open>\<open>typeof v === "object"\<close> for a truthy \<open>v\<close>: arrays and objects.\<close>

fun is_object :: "json \<Rightarrow> bool" where
  "is_object (JArr xs) = True"
| "is_object (JObj ms) = True"
| "is_object _ = False"

text \<open>The text \<open>JSON.parse\<close> reads when it is given a value that is not a string.\<close>

fun ToString :: "json \<Rightarrow> string" where
  "ToString (JStr s) = s"
| "ToString (JNum n) = String n"
| "ToString (JFloat w) = w"
| "ToString (JBool b) = (if b then ''true'' else ''false'')"
| "ToString JNull = ''null''"
| "ToString _ = ''[object Object]''"

definition safeParse :: "json \<Rightarrow> exn + json" where
  "safeParse v =
     (if \<not> truthy v then Inr (JObj [])
      else if is_object v then Inr v
      else (case JSON_parse (ToString v) of
              Inr j \<Rightarrow> Inr j
            | Inl e \<Rightarrow> Inr (JObj [])))"

section \<open>Time\<close>

text \<open>\<open>Date.prototype.toISOString\<close> of a time value in milliseconds since the epoch
  (proleptic Gregorian calendar, UTC).\<close>

definition pad :: "nat \<Rightarrow> int \<Rightarrow> string" where
  "pad w n = replicate (w - length (String n)) CHR ''0'' @ String n"

definition civil :: "int \<Rightarrow> int \<times> int \<times> int" where
  "civil days =
     (let z = days + 719468;
          era = z div 146097;
          doe = z - era * 146097;
          yoe = (doe - doe div 1460 + doe div 36524 - doe div 146096) div 365;
          doy = doe - (365 * yoe + yoe div 4 - yoe div 100);
          mp = (5 * doy + 2) div 153;
          d = doy - (153 * mp + 2) div 5 + 1;
          m = (if mp < 10 then mp + 3 else mp - 9);
          y = yoe + era * 400 + (if m \<le> 2 then 1 else 0)
      in (y, m, d))"

definition year_text :: "int \<Rightarrow> string" where
  "year_text y =
     (if 0 \<le> y \<and> y \<le> 9999 then pad 4 y
      else (if y < 0 then ''-'' else ''+'') @ pad 6 \<bar>y\<bar>)"

definition toISOString :: "int \<Rightarrow> string" where
  "toISOString t =
     (let ms = t mod 86400000;
          ymd = civil (t div 86400000)
      in year_text (fst ymd) @ ''-'' @ pad 2 (fst (snd ymd)) @ ''-'' @ pad 2 (snd (snd ymd)) @ ''T'' @
         pad 2 (ms div 3600000) @ '':'' @ pad 2 ((ms div 60000) mod 60) @ '':'' @
         pad 2 ((ms div 1000) mod 60) @ ''.'' @ pad 3 (ms mod 1000) @ ''Z'')"

text \<open>\<open>new Date(t).toISOString()\<close> for a computed \<open>t\<close>: \<open>RangeError\<close> on \<open>NaN\<close>, on an
  infinity and beyond the range of time values.\<close>

definition date_iso :: "number \<Rightarrow> exn + string" where
  "date_iso t =
     (case t of
        Fin v \<Rightarrow> if \<bar>v\<bar> \<le> 8640000000000000 then Inr (toISOString v) else Inl RangeError
      | _ \<Rightarrow> Inl RangeError)"

text \<open>\<open>nowISO()\<close>, from the clock reading \<open>Date.now()\<close>.\<close>

definition nowISO :: "int \<Rightarrow> string" where
  "nowISO clock = toISOString clock"

section \<open>Configuration and tables\<close>

record config =
  ADMIN_IDS :: "string list"
  ADMIN_USERNAME :: string
  MIN_DEPOSIT :: number
  CHECK_TIMEOUT_MIN :: number
  PAYMENT_CARDS :: "string list"

definition isAdmin :: "config \<Rightarrow> int \<Rightarrow> bool" where
  "isAdmin cfg userId = (String userId \<in> set (ADMIN_IDS cfg))"

text \<open>The rows of \<open>models.js\<close>.  A nullable column is an option; an \<open>INTEGER\<close> column
  holds the integers and infinities that the handlers write.\<close>

record user =
  usr_id :: int
  username :: "string option"
  balance :: "number option"
  secret_code :: "string option"

record provider =
  prov_id :: string
  prov_name :: string

record request =
  req_id :: string
  user_id :: int
  provider_id :: "string option"
  provider_name :: "string option"
  req_type :: string
  amount :: "number option"
  details :: "string option"
  status :: string
  created_at :: string
  expires_at :: "string option"
  resolved_at :: "string option"
  admin_note :: "string option"

record db =
  users :: "user list"
  providers :: "provider list"
  requests :: "request list"

text \<open>\<open>db.get("SELECT * FROM requests WHERE id=?")\<close>: the first row with that id.\<close>

definition select_request :: "db \<Rightarrow> string \<Rightarrow> request option" where
  "select_request d i = find (\<lambda>r. req_id r = i) (requests d)"

definition select_user :: "db \<Rightarrow> int \<Rightarrow> user option" where
  "select_user d i = find (\<lambda>u. usr_id u = i) (users d)"

text \<open>A text column as the JavaScript value the driver returns.\<close>

definition column :: "string option \<Rightarrow> json" where
  "column c = (case c of None \<Rightarrow> JNull | Some s \<Rightarrow> JStr s)"

text \<open>A row whose \<open>details\<close> were replaced by \<open>safeParse(row.details)\<close>.\<close>

type_synonym parsed_row = "request \<times> json"

definition parse_row :: "request option \<Rightarrow> exn + parsed_row option" where
  "parse_row row =
     (case row of
        None \<Rightarrow> Inr None
      | Some r \<Rightarrow> (case safeParse (column (details r)) of
                    Inl e \<Rightarrow> Inl e
                  | Inr j \<Rightarrow> Inr (Some (r, j))))"

definition getRequest :: "db \<Rightarrow> string \<Rightarrow> exn + parsed_row option" where
  "getRequest d i = parse_row (select_request d i)"

definition update_status :: "string \<Rightarrow> string \<Rightarrow> string option \<Rightarrow> string \<Rightarrow> request \<Rightarrow> request" where
  "update_status i st note resolved r =
     (if req_id r = i then r\<lparr>status := st, resolved_at := Some resolved, admin_note := note\<rparr> else r)"

definition updateRequestStatus ::
  "int \<Rightarrow> string \<Rightarrow> string \<Rightarrow> string option \<Rightarrow> db \<Rightarrow> (exn + parsed_row option) \<times> db" where
  "updateRequestStatus clock i st note d =
     (let d' = d\<lparr>requests := map (update_status i st note (nowISO clock)) (requests d)\<rparr>
      in (parse_row (select_request d' i), d'))"

text \<open>The argument object of \<open>createRequest\<close>; an absent property is \<open>None\<close>.\<close>

record new_request =
  nr_id :: "string option"
  nr_user_id :: int
  nr_provider_id :: "string option"
  nr_provider_name :: "string option"
  nr_type :: string
  nr_amount :: "number option"
  nr_details :: "(string \<times> string option) list"
  nr_status :: "string option"
  nr_expires_at :: "string option"

text \<open>\<open>s || d\<close> on an optional string, and \<open>n || null\<close> on an optional number.\<close>

definition str_or :: "string option \<Rightarrow> string \<Rightarrow> string" where
  "str_or s d = (case s of None \<Rightarrow> d | Some v \<Rightarrow> if v = [] then d else v)"

definition str_or_null :: "string option \<Rightarrow> string option" where
  "str_or_null s = (case s of None \<Rightarrow> None | Some v \<Rightarrow> if v = [] then None else Some v)"

definition num_or_null :: "number option \<Rightarrow> number option" where
  "num_or_null n = (case n of None \<Rightarrow> None | Some v \<Rightarrow> if number_truthy v then Some v else None)"

text \<open>The value of a numeric cell as the driver hands it to JavaScript: an integer becomes
  the nearest double.\<close>

definition read_number :: "number option \<Rightarrow> number option" where
  "read_number c = (case c of Some (Fin v) \<Rightarrow> Some (round_double v) | _ \<Rightarrow> c)"

text \<open>A number bound to a statement: NaN is stored as \<open>NULL\<close>.\<close>

definition bind_number :: "number \<Rightarrow> number option" where
  "bind_number v = (if v = NaN then None else Some v)"

text \<open>\<open>createRequest(req)\<close>; \<open>nid\<close> is what \<open>nanoid()\<close> would return.  The insert
  throws when the primary key is taken.\<close>

definition createRequest ::
  "string \<Rightarrow> int \<Rightarrow> new_request \<Rightarrow> db \<Rightarrow> (exn + parsed_row option) \<times> db" where
  "createRequest nid clock req d =
     (let i = str_or (nr_id req) nid;
          created = nowISO clock;
          expires = str_or_null (nr_expires_at req);
          detailsStr = JSON_stringify (nr_details req)
      in if select_request d i \<noteq> None then (Inl ConstraintError, d)
         else
           (let d' = d\<lparr>requests := requests d @
                  [\<lparr>req_id = i, user_id = nr_user_id req, provider_id = nr_provider_id req,
                    provider_name = nr_provider_name req, req_type = nr_type req,
                    amount = num_or_null (nr_amount req), details = Some detailsStr,
                    status = str_or (nr_status req) ''pending'', created_at = created,
                    expires_at = expires, resolved_at = None, admin_note = None\<rparr>]\<rparr>
            in (parse_row (select_request d' i), d')))"

section \<open>Admin approve / reject\<close>

text \<open>\<open>v.amount\<close> for a value \<open>v\<close> that is not \<open>null\<close>: the last member of that name
  of an object, \<open>undefined\<close> otherwise (names inherited from a prototype are not
  modelled).\<close>

fun property :: "json \<Rightarrow> string \<Rightarrow> json" where
  "property (JObj ms) k = (case map_of (rev ms) k of None \<Rightarrow> JNull | Some v \<Rightarrow> v)"
| "property _ k = JNull"

text \<open>
  What the approve branch adds to the balance of a deposit:
  \<open>amount = req.amount || (details.amount || 0)\<close> with \<open>details = safeParse(req.details)\<close>,
  credited when \<open>amount && amount > 0\<close>.  \<open>details.amount\<close> throws on \<open>null\<close>.  A
  truthy \<open>details.amount\<close> that is a string, an array, an object or a number kept as text
  leads to string concatenation or to arithmetic on fractions: \<open>NotModelled\<close>, and the
  theorems below say nothing about a request with such details.
\<close>

datatype credit = Credit number | NoCredit | Throws | NotModelled

fun amount_credit :: "json \<Rightarrow> credit" where
  "amount_credit (JNum n) = (if 0 < n then Credit (Fin n) else NoCredit)"
| "amount_credit (JBool b) = (if b then Credit (Fin 1) else NoCredit)"
| "amount_credit JNull = NoCredit"
| "amount_credit v = (if truthy v then NotModelled else NoCredit)"

definition deposit_credit :: "parsed_row \<Rightarrow> credit" where
  "deposit_credit req =
     (case num_or_null (read_number (amount (fst req))) of
        Some a \<Rightarrow> if js_less (Fin 0) a then Credit a else NoCredit
      | None \<Rightarrow>
          (case safeParse (snd req) of
             Inl e \<Rightarrow> Throws
           | Inr JNull \<Rightarrow> Throws
           | Inr dt \<Rightarrow> amount_credit (property dt ''amount'')))"

text \<open>\<open>(userRow.balance || 0) + amount\<close>, for the row that
  \<open>SELECT balance FROM users WHERE id=?\<close> returned.\<close>

definition new_balance :: "user \<Rightarrow> number \<Rightarrow> number" where
  "new_balance userRow a =
     js_add (case num_or_null (read_number (balance userRow)) of None \<Rightarrow> Fin 0 | Some b \<Rightarrow> b) a"

text \<open>\<open>UPDATE users SET balance = ? WHERE id = ?\<close>.\<close>

definition store_balance :: "int \<Rightarrow> number \<Rightarrow> db \<Rightarrow> db" where
  "store_balance uid nb d =
     d\<lparr>users := map (\<lambda>u. if usr_id u = uid then u\<lparr>balance := bind_number nb\<rparr> else u) (users d)\<rparr>"

text \<open>The select and the update one after the other; nothing is written when no row was
  found.\<close>

definition credit_user :: "int \<Rightarrow> number \<Rightarrow> db \<Rightarrow> db" where
  "credit_user uid a d =
     (case select_user d uid of
        None \<Rightarrow> d
      | Some userRow \<Rightarrow> store_balance uid (new_balance userRow a) d)"

text \<open>What the handler answers in the chat, and what it sends to others.\<close>

datatype reply =
    OnlyAdmins
  | NotFound
  | AlreadyResolved
  | Approved
  | Rejected
  | Failed exn
  | Unsupported

datatype notice =
    Credited number
  | DepositApproved
  | WithdrawDone
  | OperationRejected
  | Lapsed
  | ExpiredInfo string
  | NewWithdraw string
  | NewDeposit string

datatype msg = ToUser int notice | ToAdmin string notice

text \<open>
  The handler of \<open>admin:(approve|reject):ID\<close>, with \<open>action\<close> and \<open>i\<close> the two groups of the
  match and \<open>actor\<close> the sender.  An exception leaves the writes done before it in place.
\<close>

definition resolve :: "config \<Rightarrow> int \<Rightarrow> int \<Rightarrow> string \<Rightarrow> string \<Rightarrow> db \<Rightarrow> reply \<times> msg list \<times> db" where
  "resolve cfg clock actor action i d =
     (if \<not> isAdmin cfg actor then (OnlyAdmins, [], d)
      else case getRequest d i of
        Inl e \<Rightarrow> (Failed e, [], d)
      | Inr None \<Rightarrow> (NotFound, [], d)
      | Inr (Some req) \<Rightarrow>
          if status (fst req) \<noteq> ''pending'' then (AlreadyResolved, [], d)
          else if action = ''approve'' then
            (let d1 = snd (updateRequestStatus clock i ''approved''
                             (Some (''Manually approved by '' @ String actor)) d)
             in if req_type (fst req) = ''deposit'' then
                  (case deposit_credit req of
                     Credit a \<Rightarrow>
                       (Approved, [ToUser (user_id (fst req)) (Credited a)],
                        credit_user (user_id (fst req)) a d1)
                   | NoCredit \<Rightarrow> (Approved, [ToUser (user_id (fst req)) DepositApproved], d1)
                   | Throws \<Rightarrow> (Failed TypeError, [], d1)
                   | NotModelled \<Rightarrow> (Unsupported, [], d1))
                else if req_type (fst req) = ''withdraw'' then
                  (Approved, [ToUser (user_id (fst req)) WithdrawDone], d1)
                else (Approved, [], d1))
          else
            (let d1 = snd (updateRequestStatus clock i ''rejected''
                             (Some (''Rejected by '' @ String actor)) d)
             in (Rejected, [ToUser (user_id (fst req)) OperationRejected], d1)))"

text \<open>The pattern \<open>^admin:(approve|reject):([A-Z0-9]{8})$\<close> on the callback data.\<close>

definition admin_match :: "string \<Rightarrow> (string \<times> string) option" where
  "admin_match data =
     (if take 14 data = ''admin:approve:'' \<and> length (drop 14 data) = 8 \<and>
         list_all (\<lambda>c. is_upper c \<or> is_digit c) (drop 14 data)
      then Some (''approve'', drop 14 data)
      else if take 13 data = ''admin:reject:'' \<and> length (drop 13 data) = 8 \<and>
         list_all (\<lambda>c. is_upper c \<or> is_digit c) (drop 13 data)
      then Some (''reject'', drop 13 data)
      else None)"

definition admin_action :: "config \<Rightarrow> int \<Rightarrow> int \<Rightarrow> string \<Rightarrow> db \<Rightarrow> (reply \<times> msg list \<times> db) option" where
  "admin_action cfg clock actor data d =
     (case admin_match data of
        None \<Rightarrow> None
      | Some (action, i) \<Rightarrow> Some (resolve cfg clock actor action i d))"

section \<open>Expiry sweep\<close>

text \<open>\<open>UPDATE requests SET status='expired', resolved_at=? WHERE id=?\<close>.\<close>

definition expire_row :: "string \<Rightarrow> string \<Rightarrow> request \<Rightarrow> request" where
  "expire_row i now r = (if req_id r = i then r\<lparr>status := ''expired'', resolved_at := Some now\<rparr> else r)"

definition is_due :: "string \<Rightarrow> request \<Rightarrow> bool" where
  "is_due now r = (case expires_at r of None \<Rightarrow> False | Some e \<Rightarrow> e \<noteq> [] \<and> e \<le> now)"

text \<open>The loop over the selected rows.\<close>

fun sweep_rows :: "config \<Rightarrow> string \<Rightarrow> request list \<Rightarrow> msg list \<times> db \<Rightarrow> msg list \<times> db" where
  "sweep_rows cfg now [] acc = acc"
| "sweep_rows cfg now (r # rs) (out, d) =
     (if is_due now r
      then sweep_rows cfg now rs
             (out @ ToUser (user_id r) Lapsed # map (\<lambda>a. ToAdmin a (ExpiredInfo (req_id r))) (ADMIN_IDS cfg),
              d\<lparr>requests := map (expire_row (req_id r) now) (requests d)\<rparr>)
      else sweep_rows cfg now rs (out, d))"

text \<open>One tick of the timer.\<close>

definition sweep :: "config \<Rightarrow> int \<Rightarrow> db \<Rightarrow> msg list \<times> db" where
  "sweep cfg clock d =
     (let now = toISOString clock;
          pend = filter (\<lambda>r. status r = ''pending'' \<and> expires_at r \<noteq> None) (requests d)
      in sweep_rows cfg now pend ([], d))"

section \<open>Handlers between their awaits\<close>

text \<open>
  A handler gives up control at every \<open>await\<close>, and another handler or the timer may run
  before it goes on.  A \<open>task\<close> is a handler that has been started, with what it has read so
  far; a step (\<open>task_step\<close>) runs it up to its next database statement inclusive.  Only the store is
  followed here; answers and messages are those of \<open>resolve\<close> and \<open>sweep\<close>.
\<close>

datatype task =
    Pressed int string string
  | Checked int string string parsed_row
  | Crediting int number
  | Storing int number
  | Ticked
  | Sweeping string "request list"

text \<open>The rows \<open>SELECT * FROM requests WHERE status='pending' AND expires_at IS NOT NULL\<close>
  returns.\<close>

definition snapshot :: "db \<Rightarrow> request list" where
  "snapshot d = filter (\<lambda>r. status r = ''pending'' \<and> expires_at r \<noteq> None) (requests d)"

text \<open>
  \<open>Pressed\<close>: the admin check and the read of the row, up to the status check.
  \<open>Checked\<close>: the status update of \<open>updateRequestStatus\<close>, which has no condition on the
  status.  \<open>Crediting\<close>: the select of the balance.  \<open>Storing\<close>: the update of the balance
  with the sum computed from what was read.  \<open>Ticked\<close>: the select of the sweep.
  \<open>Sweeping\<close>: one round of its loop, on the rows as they were selected.
\<close>

fun task_step :: "config \<Rightarrow> int \<Rightarrow> task \<Rightarrow> db \<Rightarrow> task option \<times> db" where
  "task_step cfg clock (Pressed actor action i) d =
     (if \<not> isAdmin cfg actor then (None, d)
      else case getRequest d i of
        Inr (Some req) \<Rightarrow>
          if status (fst req) \<noteq> ''pending'' then (None, d)
          else (Some (Checked actor action i req), d)
      | _ \<Rightarrow> (None, d))"
| "task_step cfg clock (Checked actor action i req) d =
     (if action = ''approve'' then
        (if req_type (fst req) = ''deposit'' then
           (case deposit_credit req of
              Credit a \<Rightarrow> Some (Crediting (user_id (fst req)) a)
            | _ \<Rightarrow> None)
         else None,
         snd (updateRequestStatus clock i ''approved''
                (Some (''Manually approved by '' @ String actor)) d))
      else
        (None,
         snd (updateRequestStatus clock i ''rejected'' (Some (''Rejected by '' @ String actor)) d)))"
| "task_step cfg clock (Crediting uid a) d =
     (case select_user d uid of
        None \<Rightarrow> (None, d)
      | Some userRow \<Rightarrow> (Some (Storing uid (new_balance userRow a)), d))"
| "task_step cfg clock (Storing uid nb) d = (None, store_balance uid nb d)"
| "task_step cfg clock Ticked d = (Some (Sweeping (toISOString clock) (snapshot d)), d)"
| "task_step cfg clock (Sweeping now []) d = (None, d)"
| "task_step cfg clock (Sweeping now (r # rs)) d =
     (Some (Sweeping now rs),
      if is_due now r then d\<lparr>requests := map (expire_row (req_id r) now) (requests d)\<rparr> else d)"

text \<open>
  A run of several tasks: the schedule names, turn by turn, the clock reading and the task
  that takes its next step.  A finished task is \<open>None\<close> and its turns do nothing.
\<close>

fun run :: "config \<Rightarrow> (int \<times> nat) list \<Rightarrow> task option list \<times> db \<Rightarrow> task option list \<times> db" where
  "run cfg [] st = st"
| "run cfg ((clock, k) # sch) (ts, d) =
     (if k < length ts then
        (case ts ! k of
           None \<Rightarrow> run cfg sch (ts, d)
         | Some t \<Rightarrow>
             (case task_step cfg clock t d of (t', d') \<Rightarrow> run cfg sch (ts[k := t'], d')))
      else run cfg sch (ts, d))"

text \<open>The number of steps a task has left at most.\<close>

fun steps_left :: "task \<Rightarrow> db \<Rightarrow> nat" where
  "steps_left (Pressed actor action i) d = 4"
| "steps_left (Checked actor action i req) d = 3"
| "steps_left (Crediting uid a) d = 2"
| "steps_left (Storing uid nb) d = 1"
| "steps_left Ticked d = length (snapshot d) + 2"
| "steps_left (Sweeping now rs) d = length rs + 1"

text \<open>A task run to its end with no other task in between.\<close>

function alone :: "config \<Rightarrow> int \<Rightarrow> task \<Rightarrow> db \<Rightarrow> db" where
  "alone cfg clock t d =
     (case fst (task_step cfg clock t d) of
        None \<Rightarrow> snd (task_step cfg clock t d)
      | Some t' \<Rightarrow> alone cfg clock t' (snd (task_step cfg clock t d)))"
  by pat_completeness auto
termination
proof (relation "measure (\<lambda>(cfg, clock, t, d). steps_left t d)")
  show "wf (measure (\<lambda>(cfg, clock, t, d). steps_left t d))" by simp
next
  fix cfg :: config and clock :: int and t :: task and d :: db and t' :: task
  assume "fst (task_step cfg clock t d) = Some t'"
  then have "steps_left t' (snd (task_step cfg clock t d)) < steps_left t d"
  proof (cases t)
    case (Sweeping now rs)
    with \<open>fst (task_step cfg clock t d) = Some t'\<close> show ?thesis by (cases rs) auto
  qed (auto split: if_splits sum.splits option.splits credit.splits)
  then show "((cfg, clock, t', snd (task_step cfg clock t d)), (cfg, clock, t, d))
      \<in> measure (\<lambda>(cfg, clock, t, d). steps_left t d)"
    by simp
qed

declare alone.simps [simp del]

section \<open>Conversation session and flow handlers\<close>

text \<open>\<open>ctx.session\<close>: \<open>{ flow, data, adminMode }\<close>.  The \<open>data\<close> object holds the properties
  the handlers set; an unset property is \<open>None\<close>, and \<open>{}\<close> is the record of all unset.\<close>

record sdata =
  step :: "string option"
  providerId :: "string option"
  providerName :: "string option"
  userGameId :: "string option"
  data_amount :: "number option"
  expiresAt :: "string option"
  code_d :: "string option"
  card_d :: "string option"

definition no_data :: sdata where
  "no_data = \<lparr>step = None, providerId = None, providerName = None, userGameId = None,
              data_amount = None, expiresAt = None, code_d = None, card_d = None\<rparr>"

record session =
  flow :: "string option"
  data :: sdata
  adminMode :: "string option"

text \<open>The pattern \<open>^[A-Z0-9]{4}$\<close>.\<close>

definition validateSecretCode :: "string \<Rightarrow> bool" where
  "validateSecretCode c = (length c = 4 \<and> list_all (\<lambda>x. is_upper x \<or> is_digit x) c)"

text \<open>The pattern \<open>^\d{12,20}$\<close>.\<close>

definition valid_card :: "string \<Rightarrow> bool" where
  "valid_card c = (12 \<le> length c \<and> length c \<le> 20 \<and> list_all is_digit c)"

text \<open>\<open>new Date(Date.now() + CHECK_TIMEOUT_MIN * 60000).toISOString()\<close>.\<close>

definition deadline :: "config \<Rightarrow> int \<Rightarrow> exn + string" where
  "deadline cfg clock = date_iso (js_add (Fin clock) (js_mul (CHECK_TIMEOUT_MIN cfg) (Fin 60000)))"

datatype answer =
    Next
  | NoAnswer
  | ProviderAdded string string
  | ProviderRemoved
  | AskAmount
  | BadAmount
  | PayPrompt
  | AskCode
  | BadCode
  | AskCard
  | BadCard
  | Accepted
  | CheckReceived
  | Cancelled
  | Welcome
  | SubscribePrompt
  | YourCode "string option"
  | Contact
  | NoProviders
  | ChooseProvider
  | Threw exn

text \<open>\<open>INSERT OR IGNORE INTO providers (id,name)\<close> and
  \<open>DELETE FROM providers WHERE id=? OR lower(name)=lower(?)\<close>.\<close>

definition insert_provider :: "string \<Rightarrow> string \<Rightarrow> db \<Rightarrow> db" where
  "insert_provider i n d =
     (if find (\<lambda>p. prov_id p = i) (providers d) \<noteq> None then d
      else d\<lparr>providers := providers d @ [\<lparr>prov_id = i, prov_name = n\<rparr>]\<rparr>)"

definition delete_provider :: "string \<Rightarrow> db \<Rightarrow> db" where
  "delete_provider key d =
     d\<lparr>providers := filter (\<lambda>p. \<not> (prov_id p = key \<or> sql_lower (prov_name p) = sql_lower key))
                         (providers d)\<rparr>"

text \<open>The admin free-text modes of the text handler; \<open>rnd\<close> is
  \<open>Math.floor(Math.random() * 10000)\<close>.\<close>

definition admin_text :: "nat \<Rightarrow> string \<Rightarrow> string \<Rightarrow> session \<Rightarrow> db \<Rightarrow> answer \<times> msg list \<times> session \<times> db" where
  "admin_text rnd mode val s d =
     (if mode = ''add_provider'' then
        (let slug = filter (\<lambda>c. is_lower c \<or> is_digit c) (toLowerCase val);
             i = (if slug \<noteq> [] then slug else ''prov'' @ string_of_nat rnd)
         in (ProviderAdded val i, [], s\<lparr>adminMode := None\<rparr>, insert_provider i val d))
      else if mode = ''remove_provider'' then
        (ProviderRemoved, [], s\<lparr>adminMode := None\<rparr>, delete_provider (toLowerCase val) d)
      else (NoAnswer, [], s, d))"

text \<open>The deposit steps of the text handler.  \<open>None\<close>: no step matched, the handler goes
  on.\<close>

definition deposit_text :: "config \<Rightarrow> int \<Rightarrow> string \<Rightarrow> session \<Rightarrow> db \<Rightarrow> (answer \<times> msg list \<times> session \<times> db) option" where
  "deposit_text cfg clock t s d =
     (if step (data s) = Some ''deposit_userid'' then
        Some (AskAmount, [],
              s\<lparr>data := (data s)\<lparr>userGameId := Some t, step := Some ''deposit_amount''\<rparr>\<rparr>, d)
      else if step (data s) = Some ''deposit_amount'' then
        (if parseInt t = NaN \<or> js_less (parseInt t) (MIN_DEPOSIT cfg) then Some (BadAmount, [], s, d)
         else
           (let s1 = s\<lparr>data := (data s)\<lparr>data_amount := Some (parseInt t),
                                         step := Some ''deposit_wait_check''\<rparr>\<rparr>
            in case deadline cfg clock of
                 Inl e \<Rightarrow> Some (Threw e, [], s1, d)
               | Inr expires \<Rightarrow>
                   Some (PayPrompt, [], s1\<lparr>data := (data s1)\<lparr>expiresAt := Some expires\<rparr>\<rparr>, d)))
      else None)"

text \<open>The withdraw steps of the text handler; \<open>nid\<close> is what \<open>nanoid()\<close> returns.  A text
  whose upper-case form is outside the model has a character that is not in \<open>A-Z\<close>, \<open>0-9\<close>
  in that form: the pattern rejects it.\<close>

definition withdraw_text ::
  "config \<Rightarrow> int \<Rightarrow> string \<Rightarrow> int \<Rightarrow> string \<Rightarrow> session \<Rightarrow> db \<Rightarrow> (answer \<times> msg list \<times> session \<times> db) option" where
  "withdraw_text cfg clock nid actor t s d =
     (if step (data s) = Some ''withdraw_userid'' then
        Some (AskCode, [],
              s\<lparr>data := (data s)\<lparr>userGameId := Some t, step := Some ''withdraw_code''\<rparr>\<rparr>, d)
      else if step (data s) = Some ''withdraw_code'' then
        (case toUpperCase t of
           None \<Rightarrow> Some (BadCode, [], s, d)
         | Some c \<Rightarrow>
             if \<not> validateSecretCode c then Some (BadCode, [], s, d)
             else Some (AskCard, [],
                        s\<lparr>data := (data s)\<lparr>code_d := Some c, step := Some ''withdraw_card''\<rparr>\<rparr>, d))
      else if step (data s) = Some ''withdraw_card'' then
        (let c = filter (\<lambda>x. \<not> is_space x) t
         in if \<not> valid_card c then Some (BadCard, [], s, d)
            else
              (let s1 = s\<lparr>data := (data s)\<lparr>card_d := Some c\<rparr>\<rparr>;
                   created = createRequest nid clock
                     \<lparr>nr_id = Some nid, nr_user_id = actor, nr_provider_id = providerId (data s1),
                      nr_provider_name = providerName (data s1), nr_type = ''withdraw'',
                      nr_amount = None,
                      nr_details = [(''userGameId'', userGameId (data s1)), (''code'', code_d (data s1)),
                                    (''card'', card_d (data s1))],
                      nr_status = Some ''pending'', nr_expires_at = None\<rparr> d
               in case fst created of
                    Inl e \<Rightarrow> Some (Threw e, [], s1, snd created)
                  | Inr row \<Rightarrow>
                      Some (Accepted, map (\<lambda>a. ToAdmin a (NewWithdraw nid)) (ADMIN_IDS cfg),
                            s1\<lparr>flow := None, data := no_data\<rparr>, snd created)))
      else None)"

text \<open>\<open>bot.on("text")\<close>.\<close>

definition on_text ::
  "config \<Rightarrow> int \<Rightarrow> nat \<Rightarrow> string \<Rightarrow> int \<Rightarrow> string \<Rightarrow> session \<Rightarrow> db \<Rightarrow> answer \<times> msg list \<times> session \<times> db" where
  "on_text cfg clock rnd nid actor text s d =
     (let t = trim text
      in if isAdmin cfg actor \<and> str_or_null (adminMode s) \<noteq> None
         then admin_text rnd (str_or (adminMode s) []) t s d
         else
           (case (if flow s = Some ''deposit'' then deposit_text cfg clock t s d else None) of
              Some res \<Rightarrow> res
            | None \<Rightarrow>
                (case (if flow s = Some ''withdraw'' then withdraw_text cfg clock nid actor t s d else None) of
                   Some res \<Rightarrow> res
                 | None \<Rightarrow> (Next, [], s, d))))"

text \<open>\<open>bot.on("photo")\<close>; \<open>fileId\<close> is the file id of the last photo size.\<close>

definition on_photo ::
  "config \<Rightarrow> int \<Rightarrow> string \<Rightarrow> int \<Rightarrow> string \<Rightarrow> session \<Rightarrow> db \<Rightarrow> answer \<times> msg list \<times> session \<times> db" where
  "on_photo cfg clock nid actor fileId s d =
     (if \<not> (flow s = Some ''deposit'' \<and> step (data s) = Some ''deposit_wait_check'')
      then (NoAnswer, [], s, d)
      else
        (case (case str_or_null (expiresAt (data s)) of
                 Some e \<Rightarrow> Inr e
               | None \<Rightarrow> deadline cfg clock) of
           Inl e \<Rightarrow> (Threw e, [], s, d)
         | Inr expires \<Rightarrow>
             (let created = createRequest nid clock
                    \<lparr>nr_id = Some nid, nr_user_id = actor, nr_provider_id = providerId (data s),
                     nr_provider_name = providerName (data s), nr_type = ''deposit'',
                     nr_amount = data_amount (data s),
                     nr_details = [(''userGameId'', userGameId (data s)), (''checkFileId'', Some fileId)],
                     nr_status = Some ''pending'', nr_expires_at = Some expires\<rparr> d
              in case fst created of
                   Inl e \<Rightarrow> (Threw e, [], s, snd created)
                 | Inr row \<Rightarrow>
                     (CheckReceived, map (\<lambda>a. ToAdmin a (NewDeposit nid)) (ADMIN_IDS cfg),
                      s\<lparr>flow := None, data := no_data\<rparr>, snd created))))"

text \<open>\<open>bot.action("cancel_flow")\<close>: the session is reset; no statement touches the
  database.\<close>

definition cancel_flow :: "session \<Rightarrow> db \<Rightarrow> answer \<times> msg list \<times> session \<times> db" where
  "cancel_flow s d = (Cancelled, [], s\<lparr>flow := None, data := no_data\<rparr>, d)"

section \<open>The handlers registered before the text handler\<close>

text \<open>\<open>ensureUser\<close>; \<open>gen\<close> is what \<open>generateSecretCode()\<close> returns.\<close>

definition ensureUser :: "string \<Rightarrow> int \<Rightarrow> string option \<Rightarrow> db \<Rightarrow> user \<times> db" where
  "ensureUser gen uid uname d =
     (case select_user d uid of
        Some row \<Rightarrow> (row, d)
      | None \<Rightarrow>
          (let row = \<lparr>usr_id = uid, username = str_or_null uname, balance = Some (Fin 0),
                      secret_code = Some gen\<rparr>
           in (row, d\<lparr>users := users d @ [row]\<rparr>)))"

text \<open>
  The menu handlers \<open>Hisobni to'ldirish\<close> and \<open>Hisobdan yechish\<close>.  \<open>member\<close> is the result of
  \<open>ensureSubscribed\<close>: true when no channel is configured, when the sender is in the channel
  and when the check fails.
\<close>

definition menu_flow :: "string \<Rightarrow> bool \<Rightarrow> session \<Rightarrow> db \<Rightarrow> answer \<times> msg list \<times> session \<times> db" where
  "menu_flow fl member s d =
     (if \<not> member then (SubscribePrompt, [], s, d)
      else if providers d = [] then (NoProviders, [], s, d)
      else (ChooseProvider, [], s\<lparr>flow := Some fl, data := no_data\<rparr>, d))"

text \<open>
  A text message goes through the handlers in the order of their registration, and the first
  that takes it ends the chain: \<open>bot.start\<close> (\<open>is_start\<close>: the message is the \<open>/start\<close>
  command), then the \<open>bot.hears\<close> handlers, which take the message whose text is their
  trigger, then \<open>bot.on("text")\<close>.  The trigger of the deposit menu has a character beyond
  U+00FF, so no text of the model is that trigger, and its handler,
  \<open>menu_flow ''deposit''\<close>, does not occur below.
\<close>

definition dispatch_text ::
  "config \<Rightarrow> int \<Rightarrow> nat \<Rightarrow> string \<Rightarrow> string \<Rightarrow> bool \<Rightarrow> bool \<Rightarrow> int \<Rightarrow> string option \<Rightarrow> string \<Rightarrow>
   session \<Rightarrow> db \<Rightarrow> answer \<times> msg list \<times> session \<times> db" where
  "dispatch_text cfg clock rnd nid gen member is_start actor uname text s d =
     (if is_start then
        (if \<not> member then (SubscribePrompt, [], s, snd (ensureUser gen actor uname d))
         else (Welcome, [], s, snd (ensureUser gen actor uname d)))
      else if text = ''Mening kodim'' then
        (YourCode (secret_code (fst (ensureUser gen actor uname d))), [], s,
         snd (ensureUser gen actor uname d))
      else if text = ''Aloqa'' then (Contact, [], s, d)
      else if text = ''Hisobdan yechish'' then menu_flow ''withdraw'' member s d
      else on_text cfg clock rnd nid actor text s d)"

section \<open>Request lifecycle\<close>

text \<open>One step in the life of a request row: the id is kept, and the status is kept or
  leaves \<open>pending\<close> for one of the three terminal states.\<close>

definition lifecycle :: "request \<Rightarrow> request \<Rightarrow> bool" where
  "lifecycle r r' =
     (req_id r' = req_id r \<and>
      (status r' = status r \<or>
       (status r = ''pending'' \<and> status r' \<in> {''approved'', ''rejected'', ''expired''})))"



text \<open>A handler's result with the users table replaced.\<close>

definition with_users :: "user list \<Rightarrow> answer \<times> msg list \<times> session \<times> db \<Rightarrow> answer \<times> msg list \<times> session \<times> db" where
  "with_users us res = (fst res, fst (snd res), fst (snd (snd res)), (snd (snd (snd res)))\<lparr>users := us\<rparr>)"

section \<open>Example data\<close>

definition cfg0 :: config where
  "cfg0 = \<lparr>ADMIN_IDS = [''1001''], ADMIN_USERNAME = ''boss'', MIN_DEPOSIT = Fin 5000,
           CHECK_TIMEOUT_MIN = Fin 5, PAYMENT_CARDS = []\<rparr>"

definition user0 :: user where
  "user0 = \<lparr>usr_id = 42, username = None, balance = Some (Fin 0), secret_code = Some ''A9K3''\<rparr>"

definition dep0 :: request where
  "dep0 = \<lparr>req_id = ''ABCD2345'', user_id = 42, provider_id = Some ''coldbet'',
           provider_name = Some ''ColdBet'', req_type = ''deposit'', amount = Some (Fin 10000),
           details = Some ''{}'', status = ''pending'',
           created_at = ''2023-11-14T22:08:20.000Z'', expires_at = Some ''2023-11-14T22:13:20.000Z'',
           resolved_at = None, admin_note = None\<rparr>"

definition wd0 :: request where
  "wd0 = \<lparr>req_id = ''WXYZ6789'', user_id = 42, provider_id = Some ''coldbet'',
          provider_name = Some ''ColdBet'', req_type = ''withdraw'', amount = None,
          details = Some ''{}'', status = ''pending'',
          created_at = ''2023-11-14T22:08:20.000Z'', expires_at = None,
          resolved_at = None, admin_note = None\<rparr>"

definition old0 :: request where
  "old0 = \<lparr>req_id = ''QRST2345'', user_id = 42, provider_id = Some ''coldbet'',
           provider_name = Some ''ColdBet'', req_type = ''deposit'', amount = Some (Fin 7000),
           details = Some ''{}'', status = ''expired'',
           created_at = ''2023-11-13T10:00:00.000Z'', expires_at = Some ''2023-11-13T10:05:00.000Z'',
           resolved_at = Some ''2023-11-13T10:05:30.000Z'', admin_note = None\<rparr>"

definition db0 :: db where
  "db0 = \<lparr>users = [user0], providers = [\<lparr>prov_id = ''coldbet'', prov_name = ''ColdBet''\<rparr>],
          requests = [dep0, wd0, old0]\<rparr>"

definition dep1 :: request where
  "dep1 = \<lparr>req_id = ''EFGH2345'', user_id = 42, provider_id = Some ''coldbet'',
           provider_name = Some ''ColdBet'', req_type = ''deposit'', amount = None,
           details = Some (''{'' @ [CHR 0x22] @ ''amount'' @ [CHR 0x22] @ '':500}''), status = ''pending'',
           created_at = ''2023-11-14T22:08:20.000Z'', expires_at = Some ''2023-11-14T22:13:20.000Z'',
           resolved_at = None, admin_note = None\<rparr>"

definition dep2 :: request where
  "dep2 = \<lparr>req_id = ''JKLM2345'', user_id = 42, provider_id = Some ''coldbet'',
           provider_name = Some ''ColdBet'', req_type = ''deposit'', amount = None,
           details = Some (''{'' @ [CHR 0x22] @ ''userGameId'' @ [CHR 0x22] @ '':'' @ [CHR 0x22] @ ''77'' @ [CHR 0x22] @ ''}''),
           status = ''pending'',
           created_at = ''2023-11-14T22:08:20.000Z'', expires_at = Some ''2023-11-14T22:13:20.000Z'',
           resolved_at = None, admin_note = None\<rparr>"

definition db1 :: db where
  "db1 = \<lparr>users = [user0], providers = [], requests = [dep1, dep2]\<rparr>"

definition s_amount :: session where
  "s_amount = \<lparr>flow = Some ''deposit'',
      data = no_data\<lparr>step := Some ''deposit_amount'', providerId := Some ''coldbet'',
                      providerName := Some ''ColdBet'', userGameId := Some ''77''\<rparr>,
      adminMode = None\<rparr>"

definition s_code :: session where
  "s_code = \<lparr>flow = Some ''withdraw'',
      data = no_data\<lparr>step := Some ''withdraw_code'', providerId := Some ''coldbet'',
                      providerName := Some ''ColdBet'', userGameId := Some ''77''\<rparr>,
      adminMode = None\<rparr>"

definition s_card :: session where
  "s_card = \<lparr>flow = Some ''withdraw'',
      data = no_data\<lparr>step := Some ''withdraw_card'', providerId := Some ''coldbet'',
                      providerName := Some ''ColdBet'', userGameId := Some ''77'',
                      code_d := Some ''ZZ99''\<rparr>,
      adminMode = None\<rparr>"





text \<open>Two schedules: an approval that runs between the select of the sweep and its loop, and
  two presses on the same request whose reads both come before the first write.\<close>

definition race_schedule :: "(int \<times> nat) list" where
  "race_schedule =
     [(1700000000000, 0),
      (1700000000100, 1), (1700000000200, 1), (1700000000300, 1), (1700000000400, 1),
      (1700000000500, 0), (1700000000600, 0)]"

definition press_schedule :: "(int \<times> nat) list" where
  "press_schedule =
     [(1700000000000, 0), (1700000000100, 1),
      (1700000000200, 0), (1700000000300, 0), (1700000000400, 0),
      (1700000000500, 1), (1700000000600, 1), (1700000000700, 1)]"

(* PROPERTIES *)

section \<open>Properties of the store helpers\<close>

lemma find_map_same:
  assumes "\<And>x. P (f x) = P x"
  shows "find P (map f xs) = map_option f (find P xs)"
  using assms by (induction xs) auto

lemma req_id_update_status: "req_id (update_status i st nt t r) = req_id r"
  by (simp add: update_status_def)

lemma select_after_update:
  "select_request (d\<lparr>requests := map (update_status i st nt t) (requests d)\<rparr>) k =
     map_option (update_status i st nt t) (select_request d k)"
  by (simp add: select_request_def find_map_same req_id_update_status)

lemma select_request_credit: "select_request (credit_user uid n d) k = select_request d k"
  by (simp add: credit_user_def store_balance_def select_request_def split: option.splits)

lemma requests_credit: "requests (credit_user uid n d) = requests d"
  by (simp add: credit_user_def store_balance_def split: option.splits)

lemma select_request_id: "select_request d i = Some r \<Longrightarrow> req_id r = i"
  by (auto simp: select_request_def find_Some_iff)

lemma safeParse_returns: "\<exists>j. safeParse v = Inr j"
  by (simp add: safeParse_def split: sum.splits)

lemma getRequest_cases:
  "getRequest d i =
     Inr (map_option (\<lambda>r. (r, projr (safeParse (column (details r))))) (select_request d i))"
proof (cases "select_request d i")
  case None
  then show ?thesis by (simp add: getRequest_def parse_row_def)
next
  case (Some r)
  obtain j where "safeParse (column (details r)) = Inr j"
    using safeParse_returns by blast
  with Some show ?thesis by (simp add: getRequest_def parse_row_def)
qed

section \<open>Properties of the admin decision\<close>

lemma select_request_resolve:
  assumes "isAdmin cfg actor" "select_request d i = Some r" "status r = ''pending''"
  shows "\<exists>st nt. st \<in> {''approved'', ''rejected''} \<and>
           select_request (snd (snd (resolve cfg clock actor action i d))) i =
             Some (r\<lparr>status := st, resolved_at := Some (nowISO clock), admin_note := nt\<rparr>)"
  using assms select_request_id [OF assms(2)]
  by (auto simp: resolve_def getRequest_cases updateRequestStatus_def Let_def select_request_credit
      select_after_update update_status_def split: credit.splits)

text \<open>
  C9.  An approve or reject attempt by an identity outside the administrator set answers
  "admins only" and leaves the whole store as it was: no request's status, resolution time or
  note and no user's balance changes.
\<close>

theorem resolve_unauthorized:
  assumes "\<not> isAdmin cfg actor"
  shows "resolve cfg clock actor action i d = (OnlyAdmins, [], d)"
  using assms by (simp add: resolve_def)

theorem resolve_unauthorized_witness:
  "\<not> isAdmin cfg0 7 \<and> resolve cfg0 1700000000000 7 ''approve'' ''ABCD2345'' db0 = (OnlyAdmins, [], db0)"
proof -
  have h: "\<not> isAdmin cfg0 7" by code_simp
  show ?thesis using h resolve_unauthorized [OF h] by simp
qed

lemma find_distinct_unique:
  "distinct (map f xs) \<Longrightarrow> find (\<lambda>r. f r = i) xs = Some r \<Longrightarrow> x \<in> set xs \<Longrightarrow> f x = i \<Longrightarrow> x = r"
  by (induction xs) (auto split: if_splits simp: image_iff)


lemma lifecycle_refl: "lifecycle r r"
  by (simp add: lifecycle_def)

lemma lifecycle_trans: "lifecycle a b \<Longrightarrow> lifecycle b c \<Longrightarrow> lifecycle a c"
  by (auto simp: lifecycle_def)

lemma list_all2_map_same: "(\<And>x. x \<in> set xs \<Longrightarrow> P x (f x)) \<Longrightarrow> list_all2 P xs (map f xs)"
  by (induction xs) auto


lemma requests_resolve:
  "requests (snd (snd (resolve cfg clock actor action i d))) = requests d \<or>
   (\<exists>r st nt. select_request d i = Some r \<and> status r = ''pending'' \<and> st \<in> {''approved'', ''rejected''} \<and>
      requests (snd (snd (resolve cfg clock actor action i d))) = map (update_status i st nt (nowISO clock)) (requests d))"
  by (auto simp: resolve_def getRequest_cases updateRequestStatus_def Let_def requests_credit
      split: option.splits credit.splits)

lemma lifecycle_resolve:
  assumes "distinct (map req_id (requests d))"
  shows "list_all2 lifecycle (requests d) (requests (snd (snd (resolve cfg clock actor action i d))))"
proof -
  let ?d' = "snd (snd (resolve cfg clock actor action i d))"
  from requests_resolve [of cfg clock actor action i d]
  consider (same) "requests ?d' = requests d"
    | (upd) r st nt where "select_request d i = Some r" "status r = ''pending''"
        "st \<in> {''approved'', ''rejected''}"
        "requests ?d' = map (update_status i st nt (nowISO clock)) (requests d)"
    by blast
  then show ?thesis
  proof cases
    case same
    then show ?thesis by (simp add: list.rel_refl lifecycle_refl)
  next
    case upd
    have "lifecycle x (update_status i st nt (nowISO clock) x)" if "x \<in> set (requests d)" for x
    proof (cases "req_id x = i")
      case True
      with find_distinct_unique [OF assms _ that, of i r] upd(1) have "x = r"
        by (simp add: select_request_def)
      with upd True show ?thesis by (auto simp: lifecycle_def update_status_def)
    next
      case False
      then show ?thesis by (simp add: lifecycle_def update_status_def)
    qed
    with upd(4) show ?thesis by (simp add: list_all2_map_same)
  qed
qed

section \<open>Properties of the expiry sweep\<close>





section \<open>Handlers that overlap\<close>

text \<open>A task that is not interrupted does what the handler as a whole does.\<close>

lemma alone_Storing: "alone cfg clock (Storing uid nb) d = store_balance uid nb d"
  by (subst alone.simps) simp

lemma alone_Crediting: "alone cfg clock (Crediting uid a) d = credit_user uid a d"
  by (subst alone.simps) (simp add: credit_user_def alone_Storing split: option.splits)

lemma alone_Checked:
  "alone cfg clock (Checked actor action i req) d =
     (if action = ''approve'' then
        (let d1 = snd (updateRequestStatus clock i ''approved''
                         (Some (''Manually approved by '' @ String actor)) d)
         in if req_type (fst req) = ''deposit'' then
              (case deposit_credit req of Credit a \<Rightarrow> credit_user (user_id (fst req)) a d1 | _ \<Rightarrow> d1)
            else d1)
      else snd (updateRequestStatus clock i ''rejected'' (Some (''Rejected by '' @ String actor)) d))"
  by (subst alone.simps) (simp add: alone_Crediting Let_def split: credit.splits)

lemma alone_Pressed:
  "alone cfg clock (Pressed actor action i) d = snd (snd (resolve cfg clock actor action i d))"
  by (subst alone.simps)
     (simp add: resolve_def alone_Checked getRequest_cases Let_def split: option.splits credit.splits)

lemma alone_Sweeping:
  "alone cfg clock (Sweeping now rs) d = snd (sweep_rows cfg now rs (out, d))"
proof (induction rs arbitrary: d out)
  case Nil
  show ?case by (subst alone.simps) simp
next
  case (Cons r rs)
  show ?case by (subst alone.simps) (simp add: Cons.IH)
qed

lemma alone_Ticked: "alone cfg clock Ticked d = snd (sweep cfg clock d)"
  by (subst alone.simps) (simp add: alone_Sweeping [where out = "[]"] sweep_def snapshot_def Let_def)

text \<open>
  C2.  The claim fails on the code.  The sweep selects the pending rows, and its loop writes
  \<open>expired\<close> with no condition on the status.  In the run below the timer has selected the
  pending deposit \<open>ABCD2345\<close>, an admin's approval then runs to its end (the status is
  \<open>approved\<close>, the balance is credited), and the loop of the sweep then overwrites the status:
  the request goes from \<open>approved\<close> to \<open>expired\<close>, and the credit of 10000 stays.
\<close>

theorem sweep_overwrites_approved:
  "map_option status (select_request db0 ''ABCD2345'') = Some ''pending'' \<and>
   map_option status
     (select_request
        (snd (run cfg0 (take 5 race_schedule)
                ([Some Ticked, Some (Pressed 1001 ''approve'' ''ABCD2345'')], db0))) ''ABCD2345'') =
     Some ''approved'' \<and>
   map_option status
     (select_request
        (snd (run cfg0 race_schedule
                ([Some Ticked, Some (Pressed 1001 ''approve'' ''ABCD2345'')], db0))) ''ABCD2345'') =
     Some ''expired'' \<and>
   map_option balance
     (select_user
        (snd (run cfg0 race_schedule
                ([Some Ticked, Some (Pressed 1001 ''approve'' ''ABCD2345'')], db0))) 42) =
     Some (Some (Fin 10000)) \<and>
   fst (run cfg0 race_schedule ([Some Ticked, Some (Pressed 1001 ''approve'' ''ABCD2345'')], db0)) =
     [None, None]"
  by code_simp

text \<open>The same gap between read and write in the decision handler: two presses on one
  pending deposit, both read before either writes, both approve, and the balance is credited
  twice.\<close>

lemma overlapping_presses_credit_twice:
  "map_option balance (select_user db0 42) = Some (Some (Fin 0)) \<and>
   map_option balance
     (select_user
        (snd (run cfg0 press_schedule
                ([Some (Pressed 1001 ''approve'' ''ABCD2345''),
                  Some (Pressed 1001 ''approve'' ''ABCD2345'')], db0))) 42) =
     Some (Some (Fin 20000)) \<and>
   fst (run cfg0 press_schedule
          ([Some (Pressed 1001 ''approve'' ''ABCD2345''),
            Some (Pressed 1001 ''approve'' ''ABCD2345'')], db0)) = [None, None]"
  by code_simp

section \<open>Two decisions on one request\<close>

lemma resolve_not_pending:
  assumes "isAdmin cfg actor" "select_request d i = Some r" "status r \<noteq> ''pending''"
  shows "resolve cfg clock actor action i d = (AlreadyResolved, [], d)"
  using assms by (simp add: resolve_def getRequest_cases)

lemma resolve_unknown:
  assumes "isAdmin cfg actor" "select_request d i = None"
  shows "resolve cfg clock actor action i d = (NotFound, [], d)"
  using assms by (simp add: resolve_def getRequest_cases)

text \<open>
  C1 (amended).  Two decisions on the same id by admins, the second starting after the first
  has ended: the second never changes the store.  If the request exists and is pending, the
  first changes the store and the second answers "already resolved"; if it exists and is not
  pending, neither changes the store and both answer "already resolved"; if it does not
  exist, neither changes the store and both answer "not found".
\<close>

theorem resolve_twice:
  assumes "isAdmin cfg a1" "isAdmin cfg a2"
    and "resolve cfg c1 a1 act1 i d = (rep1, out1, d1)"
    and "resolve cfg c2 a2 act2 i d1 = (rep2, out2, d2)"
  shows "d2 = d1 \<and>
         ((\<exists>r. select_request d i = Some r \<and> status r = ''pending'') \<longrightarrow>
            d1 \<noteq> d \<and> rep2 = AlreadyResolved) \<and>
         ((\<exists>r. select_request d i = Some r \<and> status r \<noteq> ''pending'') \<longrightarrow>
            d1 = d \<and> rep1 = AlreadyResolved \<and> rep2 = AlreadyResolved) \<and>
         (select_request d i = None \<longrightarrow> d1 = d \<and> rep1 = NotFound \<and> rep2 = NotFound)"
proof (cases "select_request d i")
  case None
  from resolve_unknown [OF assms(1) None] assms(3) have "d1 = d" "rep1 = NotFound" by simp_all
  moreover from resolve_unknown [OF assms(2) None] assms(4) \<open>d1 = d\<close>
  have "d2 = d1" "rep2 = NotFound" by simp_all
  ultimately show ?thesis using None by simp
next
  case (Some r)
  show ?thesis
  proof (cases "status r = ''pending''")
    case False
    from resolve_not_pending [OF assms(1) Some False] assms(3)
    have "d1 = d" "rep1 = AlreadyResolved" by simp_all
    moreover from resolve_not_pending [OF assms(2) Some False] assms(4) \<open>d1 = d\<close>
    have "d2 = d1" "rep2 = AlreadyResolved" by simp_all
    ultimately show ?thesis using Some False by simp
  next
    case True
    from select_request_resolve [OF assms(1) Some True, of c1 act1] assms(3)
    obtain st nt where st: "st \<in> {''approved'', ''rejected''}"
      and sel: "select_request d1 i =
                  Some (r\<lparr>status := st, resolved_at := Some (nowISO c1), admin_note := nt\<rparr>)"
      by auto
    have "d1 \<noteq> d"
    proof
      assume "d1 = d"
      with sel Some have "r = r\<lparr>status := st, resolved_at := Some (nowISO c1), admin_note := nt\<rparr>"
        by simp
      then have "status r = status (r\<lparr>status := st, resolved_at := Some (nowISO c1), admin_note := nt\<rparr>)"
        by (rule arg_cong)
      with st True show False by auto
    qed
    moreover from st have "status (r\<lparr>status := st, resolved_at := Some (nowISO c1), admin_note := nt\<rparr>) \<noteq> ''pending''"
      by auto
    from resolve_not_pending [OF assms(2) sel this] assms(4)
    have "d2 = d1" "rep2 = AlreadyResolved" by simp_all
    ultimately show ?thesis using Some True by simp
  qed
qed

theorem resolve_twice_witness:
  "isAdmin cfg0 1001 \<and> select_request db0 ''ABCD2345'' = Some dep0 \<and> status dep0 = ''pending'' \<and>
   snd (snd (resolve cfg0 1700000000000 1001 ''approve'' ''ABCD2345'' db0)) \<noteq> db0 \<and>
   fst (resolve cfg0 1700000060000 1001 ''approve'' ''ABCD2345''
         (snd (snd (resolve cfg0 1700000000000 1001 ''approve'' ''ABCD2345'' db0)))) = AlreadyResolved \<and>
   snd (snd (resolve cfg0 1700000060000 1001 ''approve'' ''ABCD2345''
         (snd (snd (resolve cfg0 1700000000000 1001 ''approve'' ''ABCD2345'' db0))))) =
     snd (snd (resolve cfg0 1700000000000 1001 ''approve'' ''ABCD2345'' db0))"
proof -
  have h1: "isAdmin cfg0 1001" by code_simp
  have h2: "select_request db0 ''ABCD2345'' = Some dep0" by code_simp
  have h3: "status dep0 = ''pending''" by code_simp
  let ?r1 = "resolve cfg0 1700000000000 1001 ''approve'' ''ABCD2345'' db0"
  let ?r2 = "resolve cfg0 1700000060000 1001 ''approve'' ''ABCD2345'' (snd (snd ?r1))"
  have e1: "?r1 = (fst ?r1, fst (snd ?r1), snd (snd ?r1))" by simp
  have e2: "?r2 = (fst ?r2, fst (snd ?r2), snd (snd ?r2))" by simp
  from resolve_twice [OF h1 h1 e1 e2] h1 h2 h3 show ?thesis by blast
qed

text \<open>For the id of an expired request no decision changes the store.\<close>

theorem resolve_twice_counterexample:
  "isAdmin cfg0 1001 \<and>
   resolve cfg0 1700000000000 1001 ''approve'' ''QRST2345'' db0 = (AlreadyResolved, [], db0) \<and>
   resolve cfg0 1700000060000 1001 ''approve'' ''QRST2345'' db0 = (AlreadyResolved, [], db0)"
proof -
  have h1: "isAdmin cfg0 1001" by code_simp
  have h2: "select_request db0 ''QRST2345'' = Some old0" by code_simp
  have h3: "status old0 \<noteq> ''pending''" by code_simp
  from resolve_not_pending [OF h1 h2 h3] h1 show ?thesis by simp
qed

section \<open>The sweep, row by row\<close>







section \<open>Approving a deposit\<close>


lemma users_update_status [simp]:
  "users (snd (updateRequestStatus clock i st nt d)) = users d"
  by (simp add: updateRequestStatus_def Let_def)

lemma bit_length_bound: "n < 2 ^ k \<Longrightarrow> bit_length n \<le> k"
proof (induction k arbitrary: n)
  case 0
  then show ?case by (subst bit_length.simps) simp
next
  case (Suc k)
  from Suc.prems have "n div 2 < 2 ^ k" by simp
  from Suc.IH [OF this] show ?case by (subst bit_length.simps) simp
qed

lemma round_double_exact: "\<bar>n\<bar> < 2 ^ 53 \<Longrightarrow> round_double n = Fin n"
  using bit_length_bound [of "\<bar>n\<bar>" 53] by (simp add: round_double_def Let_def)










section \<open>Totality of \<open>safeParse\<close>\<close>

lemma parse_row_returns: "\<exists>row. parse_row x = Inr row"
proof (cases x)
  case None
  then show ?thesis by (simp add: parse_row_def)
next
  case (Some r)
  obtain j where "safeParse (column (details r)) = Inr j" using safeParse_returns by blast
  with Some show ?thesis by (simp add: parse_row_def)
qed

text \<open>
  C10 (amended).  \<open>safeParse\<close> never throws: for every value it returns a value, the empty
  object for a falsy input and for text that \<open>JSON.parse\<close> rejects, the input itself when it
  is an object or array, and otherwise whatever \<open>JSON.parse\<close> yields (which need not be an
  object).  So \<open>getRequest\<close> and \<open>updateRequestStatus\<close> never fail, whatever the stored details
  are, and \<open>createRequest\<close> fails only when the id is already taken.
\<close>

theorem safeParse_never_throws:
  "(\<exists>j. safeParse v = Inr j) \<and>
   (\<not> truthy v \<longrightarrow> safeParse v = Inr (JObj [])) \<and>
   (truthy v \<and> is_object v \<longrightarrow> safeParse v = Inr v) \<and>
   (truthy v \<and> \<not> is_object v \<longrightarrow>
      safeParse v = (case JSON_parse (ToString v) of Inl e \<Rightarrow> Inr (JObj []) | Inr j \<Rightarrow> Inr j)) \<and>
   (\<exists>row. getRequest d i = Inr row) \<and>
   (\<exists>row. fst (updateRequestStatus clock i st nt d) = Inr row) \<and>
   (\<forall>e. fst (createRequest nid clock req d) = Inl e \<longrightarrow>
      e = ConstraintError \<and> select_request d (str_or (nr_id req) nid) \<noteq> None)"
proof -
  have "\<exists>row. getRequest d i = Inr row"
    by (simp add: getRequest_def parse_row_returns)
  moreover have "\<exists>row. fst (updateRequestStatus clock i st nt d) = Inr row"
    by (simp add: updateRequestStatus_def Let_def parse_row_returns)
  moreover have "e = ConstraintError \<and> select_request d (str_or (nr_id req) nid) \<noteq> None"
    if "fst (createRequest nid clock req d) = Inl e" for e
  proof (cases "select_request d (str_or (nr_id req) nid) = None")
    case True
    then have "fst (createRequest nid clock req d) =
        parse_row (select_request (snd (createRequest nid clock req d)) (str_or (nr_id req) nid))"
      by (simp add: createRequest_def Let_def)
    with that parse_row_returns
      [of "select_request (snd (createRequest nid clock req d)) (str_or (nr_id req) nid)"]
    show ?thesis by simp
  next
    case False
    then have "fst (createRequest nid clock req d) = Inl ConstraintError"
      by (simp add: createRequest_def Let_def)
    with that False show ?thesis by simp
  qed
  moreover have "\<not> truthy v \<longrightarrow> safeParse v = Inr (JObj [])"
    by (simp add: safeParse_def)
  moreover have "truthy v \<and> is_object v \<longrightarrow> safeParse v = Inr v"
    by (simp add: safeParse_def)
  moreover have "truthy v \<and> \<not> is_object v \<longrightarrow>
      safeParse v = (case JSON_parse (ToString v) of Inl e \<Rightarrow> Inr (JObj []) | Inr j \<Rightarrow> Inr j)"
    by (simp add: safeParse_def split: sum.splits)
  ultimately show ?thesis
    using safeParse_returns [of v] by blast
qed

theorem safeParse_never_throws_witness:
  "\<not> truthy JNull \<and> safeParse JNull = Inr (JObj []) \<and>
   truthy (JArr []) \<and> is_object (JArr []) \<and> safeParse (JArr []) = Inr (JArr []) \<and>
   truthy (JStr ''{oops'') \<and> \<not> is_object (JStr ''{oops'') \<and>
   JSON_parse (ToString (JStr ''{oops'')) = Inl SyntaxError \<and>
   safeParse (JStr ''{oops'') = Inr (JObj []) \<and>
   (\<exists>row. getRequest db1 ''EFGH2345'' = Inr row) \<and>
   fst (createRequest ''ABCD2345'' 1700000000000
          \<lparr>nr_id = Some ''ABCD2345'', nr_user_id = 42, nr_provider_id = None, nr_provider_name = None,
            nr_type = ''withdraw'', nr_amount = None, nr_details = [], nr_status = Some ''pending'',
            nr_expires_at = None\<rparr> db0) = Inl ConstraintError \<and>
   select_request db0 (str_or (Some ''ABCD2345'') ''ABCD2345'') \<noteq> None"
proof -
  let ?req = "\<lparr>nr_id = Some ''ABCD2345'', nr_user_id = 42, nr_provider_id = None, nr_provider_name = None,
            nr_type = ''withdraw'', nr_amount = None, nr_details = [], nr_status = Some ''pending'',
            nr_expires_at = None\<rparr>"
  have a: "\<not> truthy JNull" "truthy (JArr []) \<and> is_object (JArr [])"
    "truthy (JStr ''{oops'') \<and> \<not> is_object (JStr ''{oops'')"
    by simp_all
  have b: "JSON_parse (ToString (JStr ''{oops'')) = Inl SyntaxError" by code_simp
  have c: "fst (createRequest ''ABCD2345'' 1700000000000 ?req db0) = Inl ConstraintError" by code_simp
  from safeParse_never_throws [of JNull db1 "''EFGH2345''"] a(1)
  have "safeParse JNull = Inr (JObj [])" "\<exists>row. getRequest db1 ''EFGH2345'' = Inr row"
    by blast+
  moreover from safeParse_never_throws [of "JArr []"] a(2)
  have "safeParse (JArr []) = Inr (JArr [])" by blast
  moreover from safeParse_never_throws [of "JStr ''{oops''"] a(3) b
  have "safeParse (JStr ''{oops'') = Inr (JObj [])" by simp
  moreover from safeParse_never_throws [of JNull db0 "[]" 1700000000000 "[]" None "''ABCD2345''" ?req] c
  have "select_request db0 (str_or (nr_id ?req) ''ABCD2345'') \<noteq> None" by blast
  ultimately show ?thesis using a b c by simp
qed

text \<open>The stored text \<open>5\<close> is valid JSON: \<open>safeParse\<close> returns the number 5, which is not
  an object.\<close>

theorem safeParse_object_counterexample:
  "safeParse (column (Some ''5'')) = Inr (JNum 5) \<and> \<not> is_object (JNum 5)"
  by code_simp

section \<open>Properties of the flow handlers\<close>


lemma toISOString_nonempty: "toISOString t \<noteq> []"
  by (simp add: toISOString_def Let_def)

lemma find_append_new: "find P xs = None \<Longrightarrow> P y \<Longrightarrow> find P (xs @ [y]) = Some y"
  by (induction xs) (auto split: if_splits)

lemma select_request_append_new:
  "select_request d i = None \<Longrightarrow> req_id r = i \<Longrightarrow>
   select_request (d\<lparr>requests := requests d @ [r]\<rparr>) i = Some r"
  by (simp add: select_request_def find_append_new)

lemma createRequest_fresh:
  assumes "select_request d (str_or (nr_id req) nid) = None"
  shows "\<exists>row. fst (createRequest nid clock req d) = Inr row"
    and "select_request (snd (createRequest nid clock req d)) (str_or (nr_id req) nid) =
      Some \<lparr>req_id = str_or (nr_id req) nid, user_id = nr_user_id req, provider_id = nr_provider_id req,
            provider_name = nr_provider_name req, req_type = nr_type req,
            amount = num_or_null (nr_amount req), details = Some (JSON_stringify (nr_details req)),
            status = str_or (nr_status req) ''pending'', created_at = nowISO clock,
            expires_at = str_or_null (nr_expires_at req), resolved_at = None, admin_note = None\<rparr>"
proof -
  show "\<exists>row. fst (createRequest nid clock req d) = Inr row"
    using assms parse_row_returns by (simp add: createRequest_def Let_def)
  show "select_request (snd (createRequest nid clock req d)) (str_or (nr_id req) nid) =
      Some \<lparr>req_id = str_or (nr_id req) nid, user_id = nr_user_id req, provider_id = nr_provider_id req,
            provider_name = nr_provider_name req, req_type = nr_type req,
            amount = num_or_null (nr_amount req), details = Some (JSON_stringify (nr_details req)),
            status = str_or (nr_status req) ''pending'', created_at = nowISO clock,
            expires_at = str_or_null (nr_expires_at req), resolved_at = None, admin_note = None\<rparr>"
    using assms by (simp add: createRequest_def Let_def select_request_append_new)
qed

lemma str_or_same [simp]: "str_or (Some i) i = i"
  by (simp add: str_or_def)

lemma on_text_deposit:
  assumes "\<not> (isAdmin cfg actor \<and> str_or_null (adminMode s) \<noteq> None)" "flow s = Some ''deposit''"
  shows "on_text cfg clock rnd nid actor text s d =
           (case deposit_text cfg clock (trim text) s d of Some res \<Rightarrow> res | None \<Rightarrow> (Next, [], s, d))"
  using assms by (auto simp: on_text_def Let_def split: option.splits)

lemma on_text_withdraw:
  assumes "\<not> (isAdmin cfg actor \<and> str_or_null (adminMode s) \<noteq> None)" "flow s = Some ''withdraw''"
  shows "on_text cfg clock rnd nid actor text s d =
           (case withdraw_text cfg clock nid actor (trim text) s d of Some res \<Rightarrow> res | None \<Rightarrow> (Next, [], s, d))"
  using assms by (auto simp: on_text_def Let_def split: option.splits)

lemma deadline_nonempty: "deadline cfg clock = Inr e \<Longrightarrow> e \<noteq> []"
  by (auto simp: deadline_def date_iso_def toISOString_nonempty split: number.splits if_splits)

lemma deadline_exact:
  assumes "CHECK_TIMEOUT_MIN cfg = Fin k" "\<bar>k * 60000\<bar> < 2 ^ 53" "\<bar>clock + k * 60000\<bar> \<le> 8640000000000000"
  shows "deadline cfg clock = Inr (toISOString (clock + k * 60000))"
proof -
  from assms(3) have "\<bar>clock + k * 60000\<bar> < 2 ^ 53" by simp
  with assms show ?thesis
    by (simp add: deadline_def date_iso_def round_double_exact)
qed

lemma dispatch_on_text:
  assumes "\<not> is_start" "text \<noteq> ''Mening kodim''" "text \<noteq> ''Aloqa''" "text \<noteq> ''Hisobdan yechish''"
  shows "dispatch_text cfg clock rnd nid gen member is_start actor uname text s d =
           on_text cfg clock rnd nid actor text s d"
  using assms by (simp add: dispatch_text_def)

text \<open>
  C5 (amended).  At the deposit amount step, for every text that reaches the flow handler
  (it is not the \<open>/start\<close> command and not a menu text, and the sender is not in an admin
  input mode), with a timeout for which the expiry time can be computed: if \<open>parseInt\<close>
  reads no number from the text, or one below the minimum, the re-prompt is sent and session
  and store stay as they were; otherwise the number is stored, the step becomes the proof
  step and the expiry time is stored in the session at that moment, and the request that a
  later photo creates carries exactly that expiry time, whatever the clock reads when the
  photo arrives.  The expiry time is \<open>now + timeout\<close> for a timeout within the exact range.
\<close>

theorem deposit_amount_step:
  assumes "\<not> is_start" "text \<noteq> ''Mening kodim''" "text \<noteq> ''Aloqa''" "text \<noteq> ''Hisobdan yechish''"
    and "\<not> (isAdmin cfg actor \<and> str_or_null (adminMode s) \<noteq> None)"
    and "flow s = Some ''deposit''" "step (data s) = Some ''deposit_amount''"
    and "deadline cfg clock = Inr e"
  shows "(parseInt (trim text) = NaN \<or> js_less (parseInt (trim text)) (MIN_DEPOSIT cfg) \<longrightarrow>
            dispatch_text cfg clock rnd nid gen member is_start actor uname text s d =
              (BadAmount, [], s, d)) \<and>
         (parseInt (trim text) \<noteq> NaN \<and> \<not> js_less (parseInt (trim text)) (MIN_DEPOSIT cfg) \<longrightarrow>
            dispatch_text cfg clock rnd nid gen member is_start actor uname text s d =
              (PayPrompt, [],
               s\<lparr>data := (data s)\<lparr>data_amount := Some (parseInt (trim text)),
                                   step := Some ''deposit_wait_check'', expiresAt := Some e\<rparr>\<rparr>, d) \<and>
            (\<forall>clock' nid' fileId. select_request d nid' = None \<longrightarrow>
               fst (on_photo cfg clock' nid' actor fileId
                      (s\<lparr>data := (data s)\<lparr>data_amount := Some (parseInt (trim text)),
                                          step := Some ''deposit_wait_check'',
                                          expiresAt := Some e\<rparr>\<rparr>) d) = CheckReceived \<and>
               map_option expires_at
                 (select_request
                    (snd (snd (snd (on_photo cfg clock' nid' actor fileId
                       (s\<lparr>data := (data s)\<lparr>data_amount := Some (parseInt (trim text)),
                                           step := Some ''deposit_wait_check'',
                                           expiresAt := Some e\<rparr>\<rparr>) d)))) nid') =
                 Some (Some e))) \<and>
         (\<forall>k. CHECK_TIMEOUT_MIN cfg = Fin k \<and> \<bar>k * 60000\<bar> < 2 ^ 53 \<and>
              \<bar>clock + k * 60000\<bar> \<le> 8640000000000000 \<longrightarrow>
            e = toISOString (clock + k * 60000))"
proof -
  let ?t = "parseInt (trim text)"
  let ?s' = "s\<lparr>data := (data s)\<lparr>data_amount := Some ?t, step := Some ''deposit_wait_check'',
                                   expiresAt := Some e\<rparr>\<rparr>"
  note disp = dispatch_on_text [OF assms(1-4)]
  have bad: "dispatch_text cfg clock rnd nid gen member is_start actor uname text s d = (BadAmount, [], s, d)"
    if "?t = NaN \<or> js_less ?t (MIN_DEPOSIT cfg)"
    using that assms(7)
    by (auto simp: disp on_text_deposit [OF assms(5,6)] deposit_text_def)
  have good: "dispatch_text cfg clock rnd nid gen member is_start actor uname text s d = (PayPrompt, [], ?s', d)"
    if "?t \<noteq> NaN \<and> \<not> js_less ?t (MIN_DEPOSIT cfg)"
    using that assms(7,8)
    by (simp add: disp on_text_deposit [OF assms(5,6)] deposit_text_def Let_def)
  have photo: "fst (on_photo cfg clock' nid' actor fileId ?s' d) = CheckReceived \<and>
               map_option expires_at
                 (select_request (snd (snd (snd (on_photo cfg clock' nid' actor fileId ?s' d)))) nid') =
                 Some (Some e)"
    if "select_request d nid' = None" for clock' nid' fileId
  proof -
    let ?req = "\<lparr>nr_id = Some nid', nr_user_id = actor, nr_provider_id = providerId (data ?s'),
                     nr_provider_name = providerName (data ?s'), nr_type = ''deposit'',
                     nr_amount = data_amount (data ?s'),
                     nr_details = [(''userGameId'', userGameId (data ?s')), (''checkFileId'', Some fileId)],
                     nr_status = Some ''pending'', nr_expires_at = Some e\<rparr>"
    have ne: "e \<noteq> []" using assms(8) by (rule deadline_nonempty)
    have fresh: "select_request d (str_or (nr_id ?req) nid') = None"
      using that by (simp add: str_or_def)
    have id: "str_or (nr_id ?req) nid' = nid'" by (simp add: str_or_def)
    obtain row where row: "fst (createRequest nid' clock' ?req d) = Inr row"
      using fresh parse_row_returns by (auto simp: createRequest_def Let_def)
    have ph: "on_photo cfg clock' nid' actor fileId ?s' d =
        (CheckReceived, map (\<lambda>a. ToAdmin a (NewDeposit nid')) (ADMIN_IDS cfg),
         ?s'\<lparr>flow := None, data := no_data\<rparr>, snd (createRequest nid' clock' ?req d))"
      using assms(6) row ne
      by (simp add: on_photo_def Let_def str_or_null_def)
    have "map_option expires_at (select_request (snd (createRequest nid' clock' ?req d)) nid') =
        Some (Some e)"
      using fresh ne id
      by (simp add: createRequest_def Let_def select_request_append_new str_or_null_def)
    with ph show ?thesis by simp
  qed
  have ex: "e = toISOString (clock + k * 60000)"
    if "CHECK_TIMEOUT_MIN cfg = Fin k \<and> \<bar>k * 60000\<bar> < 2 ^ 53 \<and> \<bar>clock + k * 60000\<bar> \<le> 8640000000000000"
    for k
    using deadline_exact [of cfg k clock] that assms(8) by simp
  from bad good photo ex show ?thesis by blast
qed


theorem deposit_amount_step_witness:
  "\<not> False \<and> ''abc'' \<noteq> ''Mening kodim'' \<and> ''abc'' \<noteq> ''Aloqa'' \<and> ''abc'' \<noteq> ''Hisobdan yechish'' \<and>
   ''5000'' \<noteq> ''Mening kodim'' \<and> ''5000'' \<noteq> ''Aloqa'' \<and> ''5000'' \<noteq> ''Hisobdan yechish'' \<and>
   \<not> (isAdmin cfg0 42 \<and> str_or_null (adminMode s_amount) \<noteq> None) \<and>
   flow s_amount = Some ''deposit'' \<and> step (data s_amount) = Some ''deposit_amount'' \<and>
   deadline cfg0 1700000000000 = Inr (toISOString (1700000000000 + 5 * 60000)) \<and>
   parseInt (trim ''abc'') = NaN \<and>
   dispatch_text cfg0 1700000000000 7 ''NEWID234'' ''K7Q2'' True False 42 None ''abc'' s_amount db0 =
     (BadAmount, [], s_amount, db0) \<and>
   parseInt (trim ''5000'') = Fin 5000 \<and> \<not> js_less (Fin 5000) (MIN_DEPOSIT cfg0) \<and>
   dispatch_text cfg0 1700000000000 7 ''NEWID234'' ''K7Q2'' True False 42 None ''5000'' s_amount db0 =
     (PayPrompt, [],
      s_amount\<lparr>data := (data s_amount)\<lparr>data_amount := Some (Fin 5000), step := Some ''deposit_wait_check'',
                   expiresAt := Some (toISOString (1700000000000 + 5 * 60000))\<rparr>\<rparr>, db0) \<and>
   select_request db0 ''NEWID234'' = None \<and>
   map_option expires_at
     (select_request
        (snd (snd (snd (on_photo cfg0 1700000200000 ''NEWID234'' 42 ''FILE1''
           (s_amount\<lparr>data := (data s_amount)\<lparr>data_amount := Some (Fin 5000),
                        step := Some ''deposit_wait_check'',
                        expiresAt := Some (toISOString (1700000000000 + 5 * 60000))\<rparr>\<rparr>) db0))))
        ''NEWID234'') =
     Some (Some (toISOString (1700000000000 + 5 * 60000)))"
proof -
  have h0: "\<not> False" by simp
  have n1: "''abc'' \<noteq> ''Mening kodim''" "''abc'' \<noteq> ''Aloqa''" "''abc'' \<noteq> ''Hisobdan yechish''"
    by simp_all
  have n2: "''5000'' \<noteq> ''Mening kodim''" "''5000'' \<noteq> ''Aloqa''" "''5000'' \<noteq> ''Hisobdan yechish''"
    by simp_all
  have h1: "\<not> (isAdmin cfg0 42 \<and> str_or_null (adminMode s_amount) \<noteq> None)"
    by (simp add: s_amount_def str_or_null_def)
  have h2: "flow s_amount = Some ''deposit''" and h3: "step (data s_amount) = Some ''deposit_amount''"
    by (simp_all add: s_amount_def)
  have k: "CHECK_TIMEOUT_MIN cfg0 = Fin 5" by (simp add: cfg0_def)
  have h4: "deadline cfg0 1700000000000 = Inr (toISOString (1700000000000 + 5 * 60000))"
    by (rule deadline_exact [OF k]) simp_all
  have p1: "parseInt (trim ''abc'') = NaN" by code_simp
  have p2: "parseInt (trim ''5000'') = Fin 5000" by code_simp
  have m: "\<not> js_less (Fin 5000) (MIN_DEPOSIT cfg0)" by (simp add: cfg0_def)
  have f: "select_request db0 ''NEWID234'' = None" by code_simp
  note t1 = deposit_amount_step [OF h0 n1 h1 h2 h3 h4, of 7 "''NEWID234''" "''K7Q2''" True None db0]
  note t2 = deposit_amount_step [OF h0 n2 h1 h2 h3 h4, of 7 "''NEWID234''" "''K7Q2''" True None db0]
  from t1 p1 have a: "dispatch_text cfg0 1700000000000 7 ''NEWID234'' ''K7Q2'' True False 42 None ''abc'' s_amount db0 =
     (BadAmount, [], s_amount, db0)"
    by blast
  have q: "parseInt (trim ''5000'') \<noteq> NaN \<and> \<not> js_less (parseInt (trim ''5000'')) (MIN_DEPOSIT cfg0)"
    using p2 m by simp
  from t2 q have b: "dispatch_text cfg0 1700000000000 7 ''NEWID234'' ''K7Q2'' True False 42 None ''5000'' s_amount db0 =
     (PayPrompt, [],
      s_amount\<lparr>data := (data s_amount)\<lparr>data_amount := Some (parseInt (trim ''5000'')),
                   step := Some ''deposit_wait_check'',
                   expiresAt := Some (toISOString (1700000000000 + 5 * 60000))\<rparr>\<rparr>, db0)"
    by blast
  from t2 q f have c: "map_option expires_at
     (select_request
        (snd (snd (snd (on_photo cfg0 1700000200000 ''NEWID234'' 42 ''FILE1''
           (s_amount\<lparr>data := (data s_amount)\<lparr>data_amount := Some (parseInt (trim ''5000'')),
                        step := Some ''deposit_wait_check'',
                        expiresAt := Some (toISOString (1700000000000 + 5 * 60000))\<rparr>\<rparr>) db0))))
        ''NEWID234'') =
     Some (Some (toISOString (1700000000000 + 5 * 60000)))"
    by blast
  from h0 n1 n2 h1 h2 h3 h4 p1 p2 m f a b [unfolded p2] c [unfolded p2] show ?thesis by blast
qed

text \<open>The menu text \<open>Hisobdan yechish\<close> at the amount step: no number is read from it, and
  it is not answered with the re-prompt: the menu handler takes it and starts the withdraw
  flow with an empty \<open>data\<close>.\<close>

theorem deposit_amount_step_counterexample:
  "flow s_amount = Some ''deposit'' \<and> step (data s_amount) = Some ''deposit_amount'' \<and>
   parseInt (trim ''Hisobdan yechish'') = NaN \<and>
   dispatch_text cfg0 1700000000000 7 ''NEWID234'' ''K7Q2'' True False 42 None ''Hisobdan yechish''
       s_amount db0 =
     (ChooseProvider, [], \<lparr>flow = Some ''withdraw'', data = no_data, adminMode = None\<rparr>, db0)"
  by code_simp


text \<open>
  C6 (amended).  At the withdraw code step, for every text that reaches the flow handler (it
  is not the \<open>/start\<close> command and not a menu text, and the sender is not in an admin input
  mode): the trimmed text is put in upper case and accepted exactly when the result is four
  characters from \<open>A-Z\<close>, \<open>0-9\<close>; then it is stored and the step becomes the card step;
  otherwise the re-prompt is sent and session and store stay as they were.
\<close>

theorem withdraw_code_step:
  assumes "\<not> is_start" "text \<noteq> ''Mening kodim''" "text \<noteq> ''Aloqa''" "text \<noteq> ''Hisobdan yechish''"
    and "\<not> (isAdmin cfg actor \<and> str_or_null (adminMode s) \<noteq> None)"
    and "flow s = Some ''withdraw''" "step (data s) = Some ''withdraw_code''"
  shows "dispatch_text cfg clock rnd nid gen member is_start actor uname text s d =
           (case toUpperCase (trim text) of
              None \<Rightarrow> (BadCode, [], s, d)
            | Some c \<Rightarrow>
                if length c = 4 \<and> (\<forall>x \<in> set c. is_upper x \<or> is_digit x)
                then (AskCard, [],
                      s\<lparr>data := (data s)\<lparr>code_d := Some c, step := Some ''withdraw_card''\<rparr>\<rparr>, d)
                else (BadCode, [], s, d))"
  using assms(7)
  by (auto simp: dispatch_on_text [OF assms(1-4)] on_text_withdraw [OF assms(5,6)] withdraw_text_def
      validateSecretCode_def list_all_iff split: option.splits)

theorem withdraw_code_step_witness:
  "\<not> False \<and> ''a9k3'' \<noteq> ''Mening kodim'' \<and> ''a9k3'' \<noteq> ''Aloqa'' \<and> ''a9k3'' \<noteq> ''Hisobdan yechish'' \<and>
   \<not> (isAdmin cfg0 42 \<and> str_or_null (adminMode s_code) \<noteq> None) \<and>
   flow s_code = Some ''withdraw'' \<and> step (data s_code) = Some ''withdraw_code'' \<and>
   toUpperCase (trim ''a9k3'') = Some ''A9K3'' \<and>
   dispatch_text cfg0 1700000000000 7 ''NEWID234'' ''K7Q2'' True False 42 None ''a9k3'' s_code db0 =
     (AskCard, [], s_code\<lparr>data := (data s_code)\<lparr>code_d := Some ''A9K3'', step := Some ''withdraw_card''\<rparr>\<rparr>, db0) \<and>
   toUpperCase (trim ''a9k'') = Some ''A9K'' \<and>
   dispatch_text cfg0 1700000000000 7 ''NEWID234'' ''K7Q2'' True False 42 None ''a9k'' s_code db0 =
     (BadCode, [], s_code, db0) \<and>
   toUpperCase (trim ([CHR ''a'', CHR 0xDF, CHR ''c'', CHR 0xA0])) = Some ''ASSC'' \<and>
   dispatch_text cfg0 1700000000000 7 ''NEWID234'' ''K7Q2'' True False 42 None
       [CHR ''a'', CHR 0xDF, CHR ''c'', CHR 0xA0] s_code db0 =
     (AskCard, [], s_code\<lparr>data := (data s_code)\<lparr>code_d := Some ''ASSC'', step := Some ''withdraw_card''\<rparr>\<rparr>, db0)"
proof -
  have h0: "\<not> False" by simp
  have n1: "''a9k3'' \<noteq> ''Mening kodim''" "''a9k3'' \<noteq> ''Aloqa''" "''a9k3'' \<noteq> ''Hisobdan yechish''"
    by simp_all
  have n2: "''a9k'' \<noteq> ''Mening kodim''" "''a9k'' \<noteq> ''Aloqa''" "''a9k'' \<noteq> ''Hisobdan yechish''"
    by simp_all
  have n3: "[CHR ''a'', CHR 0xDF, CHR ''c'', CHR 0xA0] \<noteq> ''Mening kodim''"
    "[CHR ''a'', CHR 0xDF, CHR ''c'', CHR 0xA0] \<noteq> ''Aloqa''"
    "[CHR ''a'', CHR 0xDF, CHR ''c'', CHR 0xA0] \<noteq> ''Hisobdan yechish''"
    by simp_all
  have h1: "\<not> (isAdmin cfg0 42 \<and> str_or_null (adminMode s_code) \<noteq> None)"
    by (simp add: s_code_def str_or_null_def)
  have h2: "flow s_code = Some ''withdraw''" and h3: "step (data s_code) = Some ''withdraw_code''"
    by (simp_all add: s_code_def)
  have u1: "toUpperCase (trim ''a9k3'') = Some ''A9K3''" by code_simp
  have u2: "toUpperCase (trim ''a9k'') = Some ''A9K''" by code_simp
  have u3: "toUpperCase (trim ([CHR ''a'', CHR 0xDF, CHR ''c'', CHR 0xA0])) = Some ''ASSC''" by code_simp
  have v1: "length ''A9K3'' = 4 \<and> (\<forall>c \<in> set ''A9K3''. is_upper c \<or> is_digit c)" by code_simp
  have v3: "length ''ASSC'' = 4 \<and> (\<forall>c \<in> set ''ASSC''. is_upper c \<or> is_digit c)" by code_simp
  from withdraw_code_step [OF h0 n1 h1 h2 h3, of 1700000000000 7 "''NEWID234''" "''K7Q2''" True None db0] u1 v1
  have a: "dispatch_text cfg0 1700000000000 7 ''NEWID234'' ''K7Q2'' True False 42 None ''a9k3'' s_code db0 =
     (AskCard, [], s_code\<lparr>data := (data s_code)\<lparr>code_d := Some ''A9K3'', step := Some ''withdraw_card''\<rparr>\<rparr>, db0)"
    by simp
  from withdraw_code_step [OF h0 n2 h1 h2 h3, of 1700000000000 7 "''NEWID234''" "''K7Q2''" True None db0] u2
  have b: "dispatch_text cfg0 1700000000000 7 ''NEWID234'' ''K7Q2'' True False 42 None ''a9k'' s_code db0 =
     (BadCode, [], s_code, db0)"
    by simp
  from withdraw_code_step [OF h0 n3 h1 h2 h3, of 1700000000000 7 "''NEWID234''" "''K7Q2''" True None db0] u3 v3
  have c: "dispatch_text cfg0 1700000000000 7 ''NEWID234'' ''K7Q2'' True False 42 None
       [CHR ''a'', CHR 0xDF, CHR ''c'', CHR 0xA0] s_code db0 =
     (AskCard, [], s_code\<lparr>data := (data s_code)\<lparr>code_d := Some ''ASSC'', step := Some ''withdraw_card''\<rparr>\<rparr>, db0)"
    by simp
  from h0 n1 h1 h2 h3 u1 u2 u3 a b c show ?thesis by blast
qed

text \<open>The menu text \<open>Aloqa\<close> at the code step: it is no valid code, and it is answered
  with the contact line, not with the re-prompt.\<close>

theorem withdraw_code_step_counterexample:
  "flow s_code = Some ''withdraw'' \<and> step (data s_code) = Some ''withdraw_code'' \<and>
   toUpperCase (trim ''Aloqa'') = Some ''ALOQA'' \<and>
   dispatch_text cfg0 1700000000000 7 ''NEWID234'' ''K7Q2'' True False 42 None ''Aloqa'' s_code db0 =
     (Contact, [], s_code, db0)"
  by code_simp

text \<open>
  C8.  Cancelling, in any session state, sets \<open>flow\<close> to none and \<open>data\<close> to the empty
  object and returns the store as it was: no request row is created, and users, providers and
  requests are unchanged.
\<close>

theorem cancel_resets:
  "\<exists>s'. cancel_flow s d = (Cancelled, [], s', d) \<and> flow s' = None \<and> data s' = no_data \<and>
        adminMode s' = adminMode s"
  by (simp add: cancel_flow_def)

theorem cancel_resets_witness:
  "cancel_flow s_amount db0 = (Cancelled, [], \<lparr>flow = None, data = no_data, adminMode = None\<rparr>, db0)"
  using cancel_resets [of s_amount db0] by (auto simp: cancel_flow_def s_amount_def)


lemma select_request_users [simp]: "select_request (d\<lparr>users := us\<rparr>) i = select_request d i"
  by (simp add: select_request_def)

lemma createRequest_users:
  "createRequest nid clock req (d\<lparr>users := us\<rparr>) =
     (fst (createRequest nid clock req d), (snd (createRequest nid clock req d))\<lparr>users := us\<rparr>)"
  by (simp add: createRequest_def Let_def select_request_def)

lemma admin_text_users:
  "admin_text rnd mode val s (d\<lparr>users := us\<rparr>) = with_users us (admin_text rnd mode val s d)"
  by (simp add: admin_text_def with_users_def insert_provider_def delete_provider_def Let_def)

lemma deposit_text_users:
  "deposit_text cfg clock t s (d\<lparr>users := us\<rparr>) = map_option (with_users us) (deposit_text cfg clock t s d)"
  by (simp add: deposit_text_def with_users_def Let_def split: option.splits sum.splits)

lemma withdraw_text_users:
  "withdraw_text cfg clock nid actor t s (d\<lparr>users := us\<rparr>) =
     map_option (with_users us) (withdraw_text cfg clock nid actor t s d)"
  by (simp add: withdraw_text_def with_users_def Let_def createRequest_users
      split: sum.splits option.splits)

lemma on_text_users:
  "on_text cfg clock rnd nid actor text s (d\<lparr>users := us\<rparr>) =
     with_users us (on_text cfg clock rnd nid actor text s d)"
proof (cases "isAdmin cfg actor \<and> str_or_null (adminMode s) \<noteq> None")
  case True
  then show ?thesis by (simp add: on_text_def Let_def admin_text_users)
next
  case False
  have n: "(Next, [], s, d\<lparr>users := us\<rparr>) = with_users us (Next, [], s, d)"
    by (simp add: with_users_def)
  show ?thesis
  proof (cases "flow s = Some ''deposit''")
    case True
    with False show ?thesis
      by (simp add: on_text_deposit deposit_text_users n split: option.splits)
  next
    case nd: False
    show ?thesis
    proof (cases "flow s = Some ''withdraw''")
      case True
      with False show ?thesis
        by (simp add: on_text_withdraw withdraw_text_users n split: option.splits)
    next
      case nw: False
      have "on_text cfg clock rnd nid actor text s e = (Next, [], s, e)" for e
        using False nd nw by (auto simp: on_text_def Let_def)
      then show ?thesis by (simp add: n)
    qed
  qed
qed

text \<open>
  C7.  The text handler never reads the users table: with any other users table (so with any
  other stored secret codes) it gives the same answer, the same messages, the same session
  and the same providers and requests.  At the card step a valid card number creates the
  withdraw request whose details record the code as it was typed.
\<close>

theorem withdraw_ignores_stored_code:
  "on_text cfg clock rnd nid actor text s (d\<lparr>users := us\<rparr>) =
     with_users us (on_text cfg clock rnd nid actor text s d) \<and>
   (\<not> (isAdmin cfg actor \<and> str_or_null (adminMode s) \<noteq> None) \<and> flow s = Some ''withdraw'' \<and>
    step (data s) = Some ''withdraw_card'' \<and> valid_card (filter (\<lambda>x. \<not> is_space x) (trim text)) \<and>
    select_request d nid = None \<longrightarrow>
      fst (on_text cfg clock rnd nid actor text s d) = Accepted \<and>
      map_option details (select_request (snd (snd (snd (on_text cfg clock rnd nid actor text s d)))) nid) =
        Some (Some (JSON_stringify
          [(''userGameId'', userGameId (data s)), (''code'', code_d (data s)),
           (''card'', Some (filter (\<lambda>x. \<not> is_space x) (trim text)))])))"
proof (intro conjI impI)
  show "on_text cfg clock rnd nid actor text s (d\<lparr>users := us\<rparr>) =
     with_users us (on_text cfg clock rnd nid actor text s d)"
    by (rule on_text_users)
next
  assume a: "\<not> (isAdmin cfg actor \<and> str_or_null (adminMode s) \<noteq> None) \<and> flow s = Some ''withdraw'' \<and>
    step (data s) = Some ''withdraw_card'' \<and> valid_card (filter (\<lambda>x. \<not> is_space x) (trim text)) \<and>
    select_request d nid = None"
  let ?c = "filter (\<lambda>x. \<not> is_space x) (trim text)"
  let ?req = "\<lparr>nr_id = Some nid, nr_user_id = actor, nr_provider_id = providerId (data s),
                      nr_provider_name = providerName (data s), nr_type = ''withdraw'',
                      nr_amount = None,
                      nr_details = [(''userGameId'', userGameId (data s)), (''code'', code_d (data s)),
                                    (''card'', Some ?c)],
                      nr_status = Some ''pending'', nr_expires_at = None\<rparr>"
  from a have fresh: "select_request d (str_or (nr_id ?req) nid) = None" by simp
  from createRequest_fresh(1) [OF fresh, of clock]
  obtain row where row: "fst (createRequest nid clock ?req d) = Inr row" by blast
  have ot: "on_text cfg clock rnd nid actor text s d =
      (Accepted, map (\<lambda>a. ToAdmin a (NewWithdraw nid)) (ADMIN_IDS cfg),
       s\<lparr>flow := None, data := no_data\<rparr>, snd (createRequest nid clock ?req d))"
    using a row
    by (simp add: on_text_withdraw withdraw_text_def Let_def)
  then show "fst (on_text cfg clock rnd nid actor text s d) = Accepted" by simp
  from createRequest_fresh(2) [OF fresh, of clock]
  show "map_option details (select_request (snd (snd (snd (on_text cfg clock rnd nid actor text s d)))) nid) =
        Some (Some (JSON_stringify
          [(''userGameId'', userGameId (data s)), (''code'', code_d (data s)), (''card'', Some ?c)]))"
    by (simp add: ot)
qed


theorem withdraw_ignores_stored_code_witness:
  "on_text cfg0 1700000000000 7 ''NEWID234'' 42 ''8600 1234 5678 9012'' s_card
      (db0\<lparr>users := [user0\<lparr>secret_code := Some ''QQ11''\<rparr>]\<rparr>) =
     with_users [user0\<lparr>secret_code := Some ''QQ11''\<rparr>]
       (on_text cfg0 1700000000000 7 ''NEWID234'' 42 ''8600 1234 5678 9012'' s_card db0) \<and>
   \<not> (isAdmin cfg0 42 \<and> str_or_null (adminMode s_card) \<noteq> None) \<and> flow s_card = Some ''withdraw'' \<and>
   step (data s_card) = Some ''withdraw_card'' \<and>
   valid_card (filter (\<lambda>x. \<not> is_space x) (trim ''8600 1234 5678 9012'')) \<and>
   select_request db0 ''NEWID234'' = None \<and>
   fst (on_text cfg0 1700000000000 7 ''NEWID234'' 42 ''8600 1234 5678 9012'' s_card db0) = Accepted \<and>
   map_option details
     (select_request (snd (snd (snd (on_text cfg0 1700000000000 7 ''NEWID234'' 42 ''8600 1234 5678 9012''
         s_card db0)))) ''NEWID234'') =
     Some (Some (JSON_stringify
       [(''userGameId'', userGameId (data s_card)), (''code'', code_d (data s_card)),
        (''card'', Some (filter (\<lambda>x. \<not> is_space x) (trim ''8600 1234 5678 9012'')))]))"
proof -
  have h1: "\<not> (isAdmin cfg0 42 \<and> str_or_null (adminMode s_card) \<noteq> None)"
    by (simp add: s_card_def str_or_null_def)
  have h2: "flow s_card = Some ''withdraw''" and h3: "step (data s_card) = Some ''withdraw_card''"
    by (simp_all add: s_card_def)
  have h4: "valid_card (filter (\<lambda>x. \<not> is_space x) (trim ''8600 1234 5678 9012''))" by code_simp
  have h5: "select_request db0 ''NEWID234'' = None" by code_simp
  from withdraw_ignores_stored_code
    [of cfg0 1700000000000 7 "''NEWID234''" 42 "''8600 1234 5678 9012''" s_card
        "[user0\<lparr>secret_code := Some ''QQ11''\<rparr>]" db0]
    h1 h2 h3 h4 h5
  show ?thesis by blast
qed

end
